theory Spec2Isabelle
  imports Main "HOL-Library.AList"
begin

section \<open>Promises\<close>

text \<open>
  A JavaScript promise is pending, resolved with a value or rejected with a reason.
  The executor of \<^verbatim>\<open>new Promise((resolve, reject) => ...)\<close> may call \<^verbatim>\<open>resolve\<close> and
  \<^verbatim>\<open>reject\<close> several times: only the first call settles the promise, later calls are
  ignored. Every operation below is run until nothing more can happen; a promise that is
  still \<open>Pending\<close> then never settles.
\<close>

datatype ('e, 'a) promise = Pending | Resolved 'a | Rejected 'e

definition resolve :: "'a \<Rightarrow> ('e, 'a) promise \<Rightarrow> ('e, 'a) promise" where
  "resolve v p = (case p of Pending \<Rightarrow> Resolved v | _ \<Rightarrow> p)"

definition reject :: "'e \<Rightarrow> ('e, 'a) promise \<Rightarrow> ('e, 'a) promise" where
  "reject r p = (case p of Pending \<Rightarrow> Rejected r | _ \<Rightarrow> p)"

fun is_rejected :: "('e, 'a) promise \<Rightarrow> bool" where
  "is_rejected (Rejected _) = True"
| "is_rejected _ = False"

fun is_resolved :: "('e, 'a) promise \<Rightarrow> bool" where
  "is_resolved (Resolved _) = True"
| "is_resolved _ = False"

fun is_settled :: "('e, 'a) promise \<Rightarrow> bool" where
  "is_settled Pending = False"
| "is_settled _ = True"

fun resolved_values :: "('e, 'a) promise list \<Rightarrow> 'a list" where
  "resolved_values [] = []"
| "resolved_values (Resolved v # ps) = v # resolved_values ps"
| "resolved_values (_ # ps) = resolved_values ps"

text \<open>
  \<^verbatim>\<open>Promise.all(ps)\<close>: rejected as soon as one of \<open>ps\<close> is rejected (whatever the
  others do), resolved with all the values once every one of them is resolved, pending
  otherwise.
\<close>

definition promise_all :: "('e, 'a) promise list \<Rightarrow> ('e, 'a list) promise" where
  "promise_all ps =
     (case find is_rejected ps of
        Some (Rejected r) \<Rightarrow> Rejected r
      | _ \<Rightarrow> if list_all is_resolved ps then Resolved (resolved_values ps) else Pending)"

section \<open>The OAuth 2 password grant authenticator\<close>

text \<open>
  The authenticator \<^verbatim>\<open>OAuth2PasswordGrantAuthenticator\<close>, the second module of
  \<^verbatim>\<open>packages/test-app/app/routes/auth-error.js\<close>.
\<close>

subsection \<open>Data\<close>

text \<open>
  A JavaScript number as the authenticator meets it: a whole number (of seconds for
  \<open>expires_in\<close>, of epoch milliseconds for \<open>expires_at\<close>), or \<^verbatim>\<open>NaN\<close>, which is
  what \<^verbatim>\<open>new Date(t).getTime()\<close> gives for a time \<open>t\<close> outside the range of dates,
  8640000000000000 milliseconds either side of the epoch. Every whole number in that
  range is a double, so the arithmetic on them is exact.
\<close>

datatype number = Num int | NaN

definition date_getTime :: "int \<Rightarrow> number" where
  "date_getTime t = (if \<bar>t\<bar> \<le> 8640000000000000 then Num t else NaN)"

text \<open>\<^verbatim>\<open>new Date(now + expiresIn * 1000).getTime()\<close>\<close>

definition millis_after :: "int \<Rightarrow> number \<Rightarrow> number" where
  "millis_after now expiresIn =
     (case expiresIn of Num e \<Rightarrow> date_getTime (now + e * 1000) | NaN \<Rightarrow> NaN)"

text \<open>
  A parsed response body that is an object, which is also the session data the
  authenticator hands out and restores from: the OAuth 2 fields the code reads, each
  absent (\<open>None\<close> stands for a missing key, \<^verbatim>\<open>undefined\<close> and \<^verbatim>\<open>null\<close>), a string
  or a number. A body that parses to a number, a string, a boolean or an array has none of
  these properties and reads like the object without any of them.
\<close>

record json =
  access_token :: "string option"
  token_type :: "string option"
  expires_in :: "number option"
  expires_at :: "number option"
  refresh_token :: "string option"
  scope :: "string option"
  error :: "string option"

text \<open>
  Ember's \<^verbatim>\<open>isEmpty\<close> at the two types of fields: \<^verbatim>\<open>null\<close>, \<^verbatim>\<open>undefined\<close> and the
  empty string are empty, every number (also 0 and \<^verbatim>\<open>NaN\<close>) is not. JavaScript's
  \<^verbatim>\<open>a || b\<close> takes \<open>b\<close> when \<open>a\<close> is falsy: absent, the empty string, the number 0
  or \<^verbatim>\<open>NaN\<close>.
\<close>

definition isEmpty_str :: "string option \<Rightarrow> bool" where
  "isEmpty_str v = (case v of None \<Rightarrow> True | Some s \<Rightarrow> s = [])"

definition isEmpty_num :: "number option \<Rightarrow> bool" where
  "isEmpty_num v = (case v of None \<Rightarrow> True | Some _ \<Rightarrow> False)"

definition js_or_str :: "string option \<Rightarrow> string option \<Rightarrow> string option" where
  "js_or_str a b = (case a of None \<Rightarrow> b | Some s \<Rightarrow> if s = [] then b else a)"

definition js_or_num :: "number option \<Rightarrow> number option \<Rightarrow> number option" where
  "js_or_num a b =
     (case a of
        None \<Rightarrow> b
      | Some NaN \<Rightarrow> b
      | Some (Num n) \<Rightarrow> if n = 0 then b else a)"

text \<open>
  A request as \<^verbatim>\<open>makeRequest\<close> hands it to \<^verbatim>\<open>fetch\<close>. \<open>form\<close> lists the fields of the
  form-url-encoded body in order (the body is their \<^verbatim>\<open>key=value\<close> pairs, URI-encoded and
  joined by \<^verbatim>\<open>&\<close>); a value \<open>None\<close> is \<^verbatim>\<open>undefined\<close>, sent as the text
  \<^verbatim>\<open>undefined\<close>.
\<close>

record request =
  url :: string
  form :: "(string \<times> string option) list"
  headers :: "(string \<times> string) list"
  http_method :: string

text \<open>
  What \<^verbatim>\<open>fetch\<close> gives back: a network error, no reply at all, or a response with its
  \<^verbatim>\<open>ok\<close> flag and its body. \<^verbatim>\<open>JSON.parse\<close> reads the body as an object (or a value
  that reads like one), reads it as \<^verbatim>\<open>null\<close>, or throws on it.
\<close>

datatype body = Json json | JsonNull | Text string

datatype fetched = NetworkError | NoReply | Response bool body

text \<open>
  The reasons the authenticator rejects with: nothing (\<^verbatim>\<open>reject()\<close>), a message, the
  error of \<^verbatim>\<open>fetch\<close>, or the response object with its \<^verbatim>\<open>ok\<close> flag and its body,
  attached to it as \<^verbatim>\<open>responseJSON\<close> when it was parsed and as \<^verbatim>\<open>responseText\<close> when
  it was not.
\<close>

datatype failure =
    NoReason
  | Message string
  | FetchError
  | ErrorResponse bool body

text \<open>The configuration of the authenticator and of the application it runs in.\<close>

record config =
  clientId :: "string option"
  serverTokenEndpoint :: string
  serverTokenRevocationEndpoint :: "string option"
  refreshAccessTokens :: bool
  refreshAccessTokensWithScope :: bool
  isFastBoot :: bool
  isTesting :: bool

text \<open>
  The world outside: the successive values of \<^verbatim>\<open>new Date().getTime()\<close>, the successive
  values of \<^verbatim>\<open>Math.floor(Math.random() * (max - min))\<close>, and the reply to the n-th
  request.
\<close>

record world =
  clock :: "nat \<Rightarrow> int"
  math_random :: "nat \<Rightarrow> int"
  fetch :: "nat \<Rightarrow> request \<Rightarrow> fetched"

text \<open>
  A timer of the run loop (\<^verbatim>\<open>later(this, this._refreshAccessToken, expiresIn,
  refreshToken, delay)\<close>) and the mutable state: the handle in
  \<^verbatim>\<open>_refreshTokenTimeout\<close>, the run loop's pending timers, the next handle, how often the
  clock and the random generator were read, the requests sent and the
  \<^verbatim>\<open>sessionDataUpdated\<close> events triggered, both in order.
\<close>

record timer =
  timer_id :: nat
  timer_delay :: int
  timer_expiresIn :: "number option"
  timer_refreshToken :: "string option"

record state =
  refreshTokenTimeout :: "nat option"
  timers :: "timer list"
  next_timer :: nat
  reads :: nat
  draws :: nat
  sent :: "request list"
  triggered :: "json list"

definition initial_state :: state where
  "initial_state =
     \<lparr>refreshTokenTimeout = None, timers = [], next_timer = 0, reads = 0, draws = 0,
      sent = [], triggered = []\<rparr>"

subsection \<open>Clock, random offset and timers\<close>

definition getTime :: "world \<Rightarrow> state \<Rightarrow> int \<times> state" where
  "getTime w st = (clock w (reads st), st\<lparr>reads := Suc (reads st)\<rparr>)"

definition tokenRefreshOffset :: "world \<Rightarrow> state \<Rightarrow> int \<times> state" where
  "tokenRefreshOffset w st =
     ((math_random w (draws st) + 5) * 1000, st\<lparr>draws := Suc (draws st)\<rparr>)"

definition cancel :: "nat option \<Rightarrow> timer list \<Rightarrow> timer list" where
  "cancel h ts = (case h of None \<Rightarrow> ts | Some i \<Rightarrow> filter (\<lambda>t. timer_id t \<noteq> i) ts)"

definition later :: "number option \<Rightarrow> string option \<Rightarrow> int \<Rightarrow> state \<Rightarrow> state" where
  "later expiresIn refreshToken delay st =
     st\<lparr>refreshTokenTimeout := Some (next_timer st),
        timers := timers st @
          [\<lparr>timer_id = next_timer st, timer_delay = delay, timer_expiresIn = expiresIn,
            timer_refreshToken = refreshToken\<rparr>],
        next_timer := Suc (next_timer st)\<rparr>"

text \<open>\<^verbatim>\<open>cancel(this._refreshTokenTimeout); delete this._refreshTokenTimeout\<close>\<close>

definition cancel_refresh :: "state \<Rightarrow> state" where
  "cancel_refresh st =
     st\<lparr>timers := cancel (refreshTokenTimeout st) (timers st), refreshTokenTimeout := None\<rparr>"

subsection \<open>The methods\<close>

text \<open>
  Each method takes the configuration, the world and the state, and returns the state
  after it; those that return a promise return it first. \<^verbatim>\<open>_validate\<close>,
  \<^verbatim>\<open>_absolutizeExpirationTime\<close> and \<^verbatim>\<open>_scheduleAccessTokenRefresh\<close>:
\<close>

definition oauth2_validate :: "json \<Rightarrow> bool" where
  "oauth2_validate data = (\<not> isEmpty_str (access_token data))"

definition oauth2_absolutizeExpirationTime ::
  "world \<Rightarrow> state \<Rightarrow> number option \<Rightarrow> number option \<times> state" where
  "oauth2_absolutizeExpirationTime w st expiresIn =
     (case expiresIn of
        None \<Rightarrow> (None, st)
      | Some e \<Rightarrow> (let (now, st1) = getTime w st in (Some (millis_after now e), st1)))"

text \<open>
  The expiry \<^verbatim>\<open>_scheduleAccessTokenRefresh\<close> works with: the \<^verbatim>\<open>expiresAt\<close> it is given
  or, when that is empty and \<^verbatim>\<open>expiresIn\<close> is not,
  \<^verbatim>\<open>new Date(now + expiresIn * 1000).getTime()\<close>. A timer is set only for an expiry that
  is not empty and greater than \<^verbatim>\<open>now - offset\<close>, which \<^verbatim>\<open>NaN\<close> is not.
\<close>

definition known_expiry :: "int \<Rightarrow> number option \<Rightarrow> number option \<Rightarrow> number option" where
  "known_expiry now expiresIn expiresAt =
     (case (expiresAt, expiresIn) of
        (None, Some e) \<Rightarrow> Some (millis_after now e)
      | _ \<Rightarrow> expiresAt)"

definition oauth2_scheduleAccessTokenRefresh ::
  "config \<Rightarrow> world \<Rightarrow> state \<Rightarrow> number option \<Rightarrow> number option \<Rightarrow> string option \<Rightarrow>
   state" where
  "oauth2_scheduleAccessTokenRefresh c w st expiresIn expiresAt refreshToken =
     (if refreshAccessTokens c \<and> \<not> isFastBoot c then
        let (now, st1) = getTime w st;
            expiresAt1 = known_expiry now expiresIn expiresAt;
            (offset, st2) = tokenRefreshOffset w st1
        in (case expiresAt1 of
              Some (Num ea) \<Rightarrow>
                if \<not> isEmpty_str refreshToken \<and> ea > now - offset then
                  let st3 = cancel_refresh st2
                  in if \<not> isTesting c
                     then later expiresIn refreshToken (ea - now - offset) st3
                     else st3
                else st2
            | _ \<Rightarrow> st2)
      else st)"

text \<open>
  \<^verbatim>\<open>makeRequest\<close> in three parts: the request it builds (the content type set, the
  client id added when one is configured), the call of \<^verbatim>\<open>fetch\<close>, and what becomes of
  the reply. The promise is resolved with the parsed body: \<open>Some\<close> of an object, or
  \<open>None\<close> for \<^verbatim>\<open>null\<close>.
\<close>

definition build_request ::
  "config \<Rightarrow> string \<Rightarrow> (string \<times> string option) list \<Rightarrow> (string \<times> string) list \<Rightarrow> request" where
  "build_request c u data hs =
     (let hs1 = AList.update ''Content-Type'' ''application/x-www-form-urlencoded'' hs;
          data1 = (if \<not> isEmpty_str (clientId c)
                   then AList.update ''client_id'' (clientId c) data else data)
      in \<lparr>url = u, form = data1, headers = hs1, http_method = ''POST''\<rparr>)"

fun read_reply :: "fetched \<Rightarrow> (failure, json option) promise" where
  "read_reply NetworkError = Rejected FetchError"
| "read_reply NoReply = Pending"
| "read_reply (Response ok (Json j)) =
     (if \<not> ok then Rejected (ErrorResponse ok (Json j)) else Resolved (Some j))"
| "read_reply (Response ok JsonNull) =
     (if \<not> ok then Rejected (ErrorResponse ok JsonNull) else Resolved None)"
| "read_reply (Response ok (Text t)) = Rejected (ErrorResponse ok (Text t))"

definition oauth2_makeRequest ::
  "config \<Rightarrow> world \<Rightarrow> state \<Rightarrow> string \<Rightarrow> (string \<times> string option) list \<Rightarrow>
   (string \<times> string) list \<Rightarrow> (failure, json option) promise \<times> state" where
  "oauth2_makeRequest c w st u data hs =
     (let req = build_request c u data hs
      in (read_reply (fetch w (length (sent st)) req), st\<lparr>sent := sent st @ [req]\<rparr>))"

text \<open>
  \<^verbatim>\<open>_refreshAccessToken\<close>: values of the response win over the earlier ones when they are
  truthy; a failed request is logged and the promise rejected with nothing. When the
  response is \<^verbatim>\<open>null\<close>, reading \<^verbatim>\<open>response['expires_in']\<close> throws inside the callback
  of \<^verbatim>\<open>then\<close>, and the promise the method returned is never settled.
\<close>

definition oauth2_refreshAccessToken ::
  "config \<Rightarrow> world \<Rightarrow> state \<Rightarrow> number option \<Rightarrow> string option \<Rightarrow> string option \<Rightarrow>
   (failure, json) promise \<times> state" where
  "oauth2_refreshAccessToken c w st expiresIn refreshToken scp =
     (let data = [(''grant_type'', Some ''refresh_token''), (''refresh_token'', refreshToken)];
          data1 = (if refreshAccessTokensWithScope c \<and> \<not> isEmpty_str scp
                   then AList.update ''scope'' scp data else data);
          (p, st1) = oauth2_makeRequest c w st (serverTokenEndpoint c) data1 []
      in (case p of
            Resolved None \<Rightarrow> (Pending, st1)
          | Resolved (Some response) \<Rightarrow>
              let expiresIn1 = js_or_num (expires_in response) expiresIn;
                  refreshToken1 = js_or_str (refresh_token response) refreshToken;
                  scp1 = js_or_str (scope response) scp;
                  (expiresAt, st2) = oauth2_absolutizeExpirationTime w st1 expiresIn1;
                  data2 = response\<lparr>expires_in := expiresIn1, expires_at := expiresAt,
                                   refresh_token := refreshToken1\<rparr>;
                  data3 = (if refreshAccessTokensWithScope c \<and> \<not> isEmpty_str scp1
                           then data2\<lparr>scope := scp1\<rparr> else data2);
                  st3 = oauth2_scheduleAccessTokenRefresh c w st2 expiresIn1 None refreshToken1;
                  st4 = st3\<lparr>triggered := triggered st3 @ [data3]\<rparr>
              in (Resolved data3, st4)
          | Rejected response \<Rightarrow> (Rejected NoReason, st1)
          | Pending \<Rightarrow> (Pending, st1)))"

text \<open>\<^verbatim>\<open>restore\<close>\<close>

definition oauth2_restore ::
  "config \<Rightarrow> world \<Rightarrow> state \<Rightarrow> json \<Rightarrow> (failure, json) promise \<times> state" where
  "oauth2_restore c w st data =
     (let (now, st1) = getTime w st
      in if (case expires_at data of Some (Num ea) \<Rightarrow> ea < now | _ \<Rightarrow> False) then
           if refreshAccessTokens c then
             oauth2_refreshAccessToken c w st1
               (expires_in data) (refresh_token data) (scope data)
           else (Rejected NoReason, st1)
         else
           if \<not> oauth2_validate data then (Rejected NoReason, st1)
           else (Resolved data,
                 oauth2_scheduleAccessTokenRefresh c w st1
                   (expires_in data) (expires_at data) (refresh_token data)))"

text \<open>\<^verbatim>\<open>makeArray(scope).join(' ')\<close>, the scope given as the list of its entries.\<close>

fun join :: "string \<Rightarrow> string list \<Rightarrow> string" where
  "join sep [] = []"
| "join sep [x] = x"
| "join sep (x # y # ys) = x @ sep @ join sep (y # ys)"

text \<open>
  \<^verbatim>\<open>authenticate\<close>: the form it sends, and the method. The executor calls \<^verbatim>\<open>reject\<close>
  for a response without an access token and then goes on, down to \<^verbatim>\<open>resolve\<close>. When
  the response is \<^verbatim>\<open>null\<close>, \<^verbatim>\<open>_validate\<close> throws inside the callback of \<^verbatim>\<open>then\<close>,
  and the promise the method returned is never settled.
\<close>

definition password_grant_form ::
  "string \<Rightarrow> string \<Rightarrow> string list \<Rightarrow> (string \<times> string option) list" where
  "password_grant_form identification password scp =
     (let data = [(''grant_type'', Some ''password''), (''username'', Some identification),
                  (''password'', Some password)];
          scopesString = join '' '' scp
      in if \<not> isEmpty_str (Some scopesString)
         then AList.update ''scope'' (Some scopesString) data else data)"

definition oauth2_authenticate ::
  "config \<Rightarrow> world \<Rightarrow> state \<Rightarrow> string \<Rightarrow> string \<Rightarrow> string list \<Rightarrow> (string \<times> string) list \<Rightarrow>
   (failure, json) promise \<times> state" where
  "oauth2_authenticate c w st identification password scp hs =
     (let data = password_grant_form identification password scp;
          (p, st1) = oauth2_makeRequest c w st (serverTokenEndpoint c) data hs
      in (case p of
            Resolved None \<Rightarrow> (Pending, st1)
          | Resolved (Some response) \<Rightarrow>
              let q = (if \<not> oauth2_validate response
                       then reject (Message ''access_token is missing in server response'') Pending
                       else Pending);
                  (expiresAt, st2) =
                    oauth2_absolutizeExpirationTime w st1 (expires_in response);
                  st3 = oauth2_scheduleAccessTokenRefresh c w st2
                          (expires_in response) expiresAt (refresh_token response);
                  response1 = (if \<not> isEmpty_num expiresAt
                               then response\<lparr>expires_at := expiresAt\<rparr> else response)
              in (resolve response1 q, st3)
          | Rejected response \<Rightarrow> (Rejected response, st1)
          | Pending \<Rightarrow> (Pending, st1)))"

text \<open>
  The loop of \<^verbatim>\<open>invalidate\<close> over \<^verbatim>\<open>['access_token', 'refresh_token']\<close>: one request
  for each token that is not empty, all sent before any of them is answered.
\<close>

fun revoke_tokens ::
  "config \<Rightarrow> world \<Rightarrow> state \<Rightarrow> string \<Rightarrow> (string \<times> string option) list \<Rightarrow>
   (failure, json option) promise list \<times> state" where
  "revoke_tokens c w st endpoint [] = ([], st)"
| "revoke_tokens c w st endpoint ((tokenType, token) # rest) =
     (if \<not> isEmpty_str token then
        let (p, st1) = oauth2_makeRequest c w st endpoint
                         [(''token_type_hint'', Some tokenType), (''token'', token)] [];
            (ps, st2) = revoke_tokens c w st1 endpoint rest
        in (p # ps, st2)
      else revoke_tokens c w st endpoint rest)"

text \<open>
  \<^verbatim>\<open>invalidate\<close>: \<^verbatim>\<open>Promise.all(requests).then(succeed, succeed)\<close>, where
  \<^verbatim>\<open>succeed\<close> cancels the timer and resolves.
\<close>

definition oauth2_invalidate ::
  "config \<Rightarrow> world \<Rightarrow> state \<Rightarrow> json \<Rightarrow> (failure, unit) promise \<times> state" where
  "oauth2_invalidate c w st data =
     (if isEmpty_str (serverTokenRevocationEndpoint c) then (Resolved (), cancel_refresh st)
      else
        let (requests, st1) =
              revoke_tokens c w st (the (serverTokenRevocationEndpoint c))
                [(''access_token'', access_token data),
                 (''refresh_token'', refresh_token data)]
        in (case promise_all requests of
              Pending \<Rightarrow> (Pending, st1)
            | _ \<Rightarrow> (Resolved (), cancel_refresh st1)))"

text \<open>
  A pending timer fires: the run loop drops it and calls
  \<^verbatim>\<open>_refreshAccessToken(expiresIn, refreshToken)\<close>, with no scope.
\<close>

definition fire_timer ::
  "config \<Rightarrow> world \<Rightarrow> state \<Rightarrow> timer \<Rightarrow> (failure, json) promise \<times> state" where
  "fire_timer c w st t =
     oauth2_refreshAccessToken c w (st\<lparr>timers := remove1 t (timers st)\<rparr>)
       (timer_expiresIn t) (timer_refreshToken t) None"

subsection \<open>Pending timers\<close>

text \<open>
  At most one timer is pending, and it is the one \<^verbatim>\<open>_refreshTokenTimeout\<close> names. The states
  of the authenticator are those its methods and its timers lead to from the initial one.
\<close>

definition one_timer :: "state \<Rightarrow> bool" where
  "one_timer st =
     (case timers st of
        [] \<Rightarrow> True
      | [t] \<Rightarrow> refreshTokenTimeout st = Some (timer_id t)
      | _ \<Rightarrow> False)"

inductive reachable :: "config \<Rightarrow> world \<Rightarrow> state \<Rightarrow> bool" for c :: config and w :: world where
  reach_init: "reachable c w initial_state"
| reach_authenticate:
    "reachable c w st \<Longrightarrow>
     reachable c w (snd (oauth2_authenticate c w st identification password scp hs))"
| reach_restore:
    "reachable c w st \<Longrightarrow> reachable c w (snd (oauth2_restore c w st data))"
| reach_invalidate:
    "reachable c w st \<Longrightarrow> reachable c w (snd (oauth2_invalidate c w st data))"
| reach_fire:
    "reachable c w st \<Longrightarrow> t \<in> set (timers st) \<Longrightarrow>
     reachable c w (snd (fire_timer c w st t))"

subsection \<open>The revocation requests\<close>

text \<open>
  What \<^verbatim>\<open>invalidate\<close> is to send when a revocation endpoint is configured: one request for
  each of \<^verbatim>\<open>access_token\<close> and \<^verbatim>\<open>refresh_token\<close> that is not empty, tagged with its
  \<^verbatim>\<open>token_type_hint\<close>; and what has become of each request when nothing more happens.
\<close>

definition revocation_request :: "config \<Rightarrow> string \<Rightarrow> string option \<Rightarrow> request" where
  "revocation_request c tokenType token =
     build_request c (the (serverTokenRevocationEndpoint c))
       [(''token_type_hint'', Some tokenType), (''token'', token)] []"

definition revocation_requests :: "config \<Rightarrow> json \<Rightarrow> request list" where
  "revocation_requests c data =
     (if \<not> isEmpty_str (access_token data)
      then [revocation_request c ''access_token'' (access_token data)] else []) @
     (if \<not> isEmpty_str (refresh_token data)
      then [revocation_request c ''refresh_token'' (refresh_token data)] else [])"

definition revocation_replies ::
  "config \<Rightarrow> world \<Rightarrow> state \<Rightarrow> json \<Rightarrow> (failure, json option) promise list" where
  "revocation_replies c w st data =
     map (\<lambda>(i, req). read_reply (fetch w (length (sent st) + i) req))
       (enumerate 0 (revocation_requests c data))"

section \<open>The internal session\<close>

text \<open>
  The session manager \<^verbatim>\<open>InternalSession\<close> of
  \<^verbatim>\<open>packages/ember-simple-auth/src/internal-session.js\<close>.
\<close>

subsection \<open>Data\<close>

text \<open>
  The values the session handles without looking into them: names of authenticators,
  session data, arguments and errors. An object is the list of its properties in order.
\<close>

datatype jsval = JUndefined | JNull | JBool bool | JNum int | JStr string

type_synonym object = "(string \<times> jsval) list"

text \<open>
  Ember's \<^verbatim>\<open>isEmpty\<close> and JavaScript's truthiness on these values, the read of a
  property (\<^verbatim>\<open>undefined\<close> when the object has none of that name) and
  \<^verbatim>\<open>Object.assign(target, source)\<close>, which writes the properties of the source over the
  target in their order.
\<close>

fun isEmpty :: "jsval \<Rightarrow> bool" where
  "isEmpty JUndefined = True"
| "isEmpty JNull = True"
| "isEmpty (JStr s) = (s = [])"
| "isEmpty _ = False"

fun truthy :: "jsval \<Rightarrow> bool" where
  "truthy JUndefined = False"
| "truthy JNull = False"
| "truthy (JBool b) = b"
| "truthy (JNum n) = (n \<noteq> 0)"
| "truthy (JStr s) = (s \<noteq> [])"

definition get_property :: "object \<Rightarrow> string \<Rightarrow> jsval" where
  "get_property obj k = (case map_of obj k of None \<Rightarrow> JUndefined | Some v \<Rightarrow> v)"

definition object_assign :: "object \<Rightarrow> object \<Rightarrow> object" where
  "object_assign target source = fold (\<lambda>(k, v). AList.update k v) source target"

text \<open>
  The content of the session: the reserved key \<^verbatim>\<open>authenticated\<close> (\<open>None\<close> when the
  key is missing or holds \<^verbatim>\<open>undefined\<close> or \<^verbatim>\<open>null\<close>) and the other keys.
\<close>

record content =
  authenticated :: "object option"
  properties :: object

text \<open>
  The events of the session, the events of an authenticator the session listens to, and
  what an operation does to the outside, in order: a call of \<^verbatim>\<open>store.persist\<close> with the
  data it is given, and an event triggered on the session.
\<close>

datatype event = AuthenticationSucceeded | InvalidationSucceeded | SessionInvalidationFailed jsval

datatype authenticator_event = SessionDataUpdated | SessionDataInvalidated

datatype effect = Persist content | Trigger event

text \<open>
  What a promise of the session is rejected with and what a failed \<^verbatim>\<open>assert\<close> throws: a
  value an authenticator or the store rejected with, or one of the three assertions of the
  session.
\<close>

datatype reason =
    Value jsval
  | AuthenticatorRequired jsval
  | NoAuthenticatorFound jsval
  | ReservedKey

text \<open>
  How a call ends: it throws, it returns nothing, or it returns a promise (given in the
  state it has when nothing more happens).
\<close>

datatype completion = Thrown reason | Returned | Promised "(reason, unit) promise"

text \<open>
  The collaborators: an authenticator with its three methods, the owner that looks an
  authenticator up by its name, the store with \<^verbatim>\<open>persist\<close> and \<^verbatim>\<open>restore\<close>, and
  Ember's \<^verbatim>\<open>set(content, key, value)\<close>, which \<^verbatim>\<open>ObjectProxy\<close> calls for an unknown
  property: it gives the content with the key written (a key with dots in it is followed
  as a path, so it can reach into \<^verbatim>\<open>content.authenticated\<close>), or throws.
\<close>

record authenticator_object =
  do_authenticate :: "jsval list \<Rightarrow> (jsval, object option) promise"
  do_restore :: "object option \<Rightarrow> (jsval, object option) promise"
  do_invalidate :: "object option \<Rightarrow> jsval list \<Rightarrow> (jsval, unit) promise"

record env =
  owner_lookup :: "jsval \<Rightarrow> authenticator_object option"
  store_persist :: "content \<Rightarrow> (jsval, unit) promise"
  store_restore :: "(jsval, content) promise"
  ember_set :: "content \<Rightarrow> string \<Rightarrow> jsval \<Rightarrow> jsval + content"

text \<open>
  The session: its four properties, the \<^verbatim>\<open>_busy\<close> flag, and the authenticators (by name)
  whose events it is bound to.
\<close>

record session =
  authenticator :: jsval
  isAuthenticated :: bool
  attemptedTransition :: "nat option"
  content :: content
  busy :: bool
  listeners :: "(jsval \<times> authenticator_event) list"

record outcome =
  after :: session
  effects :: "effect list"
  completion :: completion

definition init :: session where
  "init =
     \<lparr>authenticator = JNull, isAuthenticated = False, attemptedTransition = None,
      content = \<lparr>authenticated = Some [], properties = []\<rparr>, busy = False, listeners = []\<rparr>"

subsection \<open>Promise plumbing\<close>

text \<open>
  An exception thrown inside a callback of \<^verbatim>\<open>then\<close> rejects the promise \<^verbatim>\<open>then\<close>
  returned; a promise returned from the callback is followed.
\<close>

definition from_callback :: "outcome \<Rightarrow> outcome" where
  "from_callback r =
     r\<lparr>completion :=
         (case completion r of
            Thrown err \<Rightarrow> Promised (Rejected err)
          | Returned \<Rightarrow> Promised (Resolved ())
          | Promised p \<Rightarrow> Promised p)\<rparr>"

text \<open>\<^verbatim>\<open>p.then(f, f)\<close> where \<open>f\<close> returns a promise rejected with \<open>err\<close>.\<close>

definition then_reject :: "reason \<Rightarrow> outcome \<Rightarrow> outcome" where
  "then_reject err r =
     r\<lparr>completion :=
         (case completion r of
            Promised Pending \<Rightarrow> Promised Pending
          | _ \<Rightarrow> Promised (Rejected err))\<rparr>"

subsection \<open>The methods\<close>

text \<open>
  Each method takes the collaborators and the session and returns the session after it,
  what it did to the outside, and how it ended. \<^verbatim>\<open>_lookupAuthenticator\<close> fails its
  assertion when the owner has nothing under the name.
\<close>

definition session_lookupAuthenticator :: "env \<Rightarrow> jsval \<Rightarrow> reason + authenticator_object" where
  "session_lookupAuthenticator e authenticatorName =
     (case owner_lookup e authenticatorName of
        None \<Rightarrow> Inl (NoAuthenticatorFound authenticatorName)
      | Some a \<Rightarrow> Inr a)"

text \<open>
  \<^verbatim>\<open>_updateStore\<close>: the data handed to the store is the content, with the name of the
  authenticator written into \<^verbatim>\<open>authenticated\<close> when the session has one; the content
  of the session is that same object.
\<close>

definition store_data :: "session \<Rightarrow> content" where
  "store_data s =
     (let data = content s
      in if \<not> isEmpty (authenticator s)
         then data\<lparr>authenticated :=
                Some (object_assign [(''authenticator'', authenticator s)]
                        (case authenticated data of None \<Rightarrow> [] | Some d \<Rightarrow> d))\<rparr>
         else data)"

definition session_updateStore ::
  "env \<Rightarrow> session \<Rightarrow> session \<times> effect list \<times> (jsval, unit) promise" where
  "session_updateStore e s =
     (let data = store_data s
      in (s\<lparr>content := data\<rparr>, [Persist data], store_persist e data))"

text \<open>\<^verbatim>\<open>_bindToAuthenticatorEvents\<close> looks the current authenticator up and binds to both of its events.\<close>

definition session_bindToAuthenticatorEvents :: "env \<Rightarrow> session \<Rightarrow> reason + session" where
  "session_bindToAuthenticatorEvents e s =
     (case session_lookupAuthenticator e (authenticator s) of
        Inl err \<Rightarrow> Inl err
      | Inr a \<Rightarrow>
          Inr (s\<lparr>listeners :=
                  List.insert (authenticator s, SessionDataInvalidated)
                    (List.insert (authenticator s, SessionDataUpdated) (listeners s))\<rparr>))"

text \<open>
  The two calls of \<^verbatim>\<open>setProperties\<close>: the one at the start of \<^verbatim>\<open>_setup\<close>, and the one
  at the start of \<^verbatim>\<open>_clear\<close> and in the rejection handler of \<^verbatim>\<open>_setup\<close>.
\<close>

definition set_authenticated :: "session \<Rightarrow> jsval \<Rightarrow> object option \<Rightarrow> session" where
  "set_authenticated s authenticatorName authenticatedContent =
     s\<lparr>isAuthenticated := True, authenticator := authenticatorName,
       content := (content s)\<lparr>authenticated := authenticatedContent\<rparr>\<rparr>"

definition set_unauthenticated :: "session \<Rightarrow> session" where
  "set_unauthenticated s =
     s\<lparr>isAuthenticated := False, authenticator := JNull,
       content := (content s)\<lparr>authenticated := Some []\<rparr>\<rparr>"

definition session_setup ::
  "env \<Rightarrow> session \<Rightarrow> jsval \<Rightarrow> object option \<Rightarrow> bool \<Rightarrow> outcome" where
  "session_setup e s authenticatorName authenticatedContent trigger =
     (let trigger1 = (trigger \<and> \<not> isAuthenticated s);
          s1 = set_authenticated s authenticatorName authenticatedContent
      in (case session_bindToAuthenticatorEvents e s1 of
            Inl err \<Rightarrow> \<lparr>after = s1, effects = [], completion = Thrown err\<rparr>
          | Inr s2 \<Rightarrow>
              let (s3, eff, p) = session_updateStore e s2
              in (case p of
                    Resolved _ \<Rightarrow>
                      \<lparr>after = s3,
                       effects = eff @ (if trigger1 then [Trigger AuthenticationSucceeded] else []),
                       completion = Promised (Resolved ())\<rparr>
                  | Rejected _ \<Rightarrow>
                      \<lparr>after = set_unauthenticated s3, effects = eff,
                       completion = Promised (Resolved ())\<rparr>
                  | Pending \<Rightarrow>
                      \<lparr>after = s3, effects = eff, completion = Promised Pending\<rparr>)))"

definition session_clear :: "env \<Rightarrow> session \<Rightarrow> bool \<Rightarrow> outcome" where
  "session_clear e s trigger =
     (let trigger1 = (trigger \<and> isAuthenticated s);
          s1 = set_unauthenticated s;
          (s2, eff, p) = session_updateStore e s1
      in (case p of
            Resolved _ \<Rightarrow>
              \<lparr>after = s2,
               effects = eff @ (if trigger1 then [Trigger InvalidationSucceeded] else []),
               completion = Promised (Resolved ())\<rparr>
          | Rejected err \<Rightarrow>
              \<lparr>after = s2, effects = eff, completion = Promised (Rejected (Value err))\<rparr>
          | Pending \<Rightarrow>
              \<lparr>after = s2, effects = eff, completion = Promised Pending\<rparr>))"

text \<open>\<^verbatim>\<open>_clearWithContent\<close>, \<^verbatim>\<open>authenticate\<close> and \<^verbatim>\<open>invalidate\<close>\<close>

definition session_clearWithContent :: "env \<Rightarrow> session \<Rightarrow> content \<Rightarrow> bool \<Rightarrow> outcome" where
  "session_clearWithContent e s c trigger = session_clear e (s\<lparr>content := c\<rparr>) trigger"

definition session_authenticate :: "env \<Rightarrow> session \<Rightarrow> jsval \<Rightarrow> jsval list \<Rightarrow> outcome" where
  "session_authenticate e s authenticatorFactory args =
     (let s1 = s\<lparr>busy := True\<rparr>
      in if isEmpty authenticatorFactory
         then \<lparr>after = s1, effects = [],
               completion = Thrown (AuthenticatorRequired authenticatorFactory)\<rparr>
         else
           (case session_lookupAuthenticator e authenticatorFactory of
              Inl err \<Rightarrow> \<lparr>after = s1, effects = [], completion = Thrown err\<rparr>
            | Inr a \<Rightarrow>
                (case do_authenticate a args of
                   Resolved c \<Rightarrow>
                     from_callback
                       (session_setup e (s1\<lparr>busy := False\<rparr>) authenticatorFactory c True)
                 | Rejected err \<Rightarrow>
                     then_reject (Value err) (session_clear e (s1\<lparr>busy := False\<rparr>) False)
                 | Pending \<Rightarrow>
                     \<lparr>after = s1, effects = [], completion = Promised Pending\<rparr>)))"

definition session_invalidate :: "env \<Rightarrow> session \<Rightarrow> jsval list \<Rightarrow> outcome" where
  "session_invalidate e s args =
     (let s1 = s\<lparr>busy := True, attemptedTransition := None\<rparr>
      in if \<not> isAuthenticated s1
         then \<lparr>after = s1\<lparr>busy := False\<rparr>, effects = [], completion = Promised (Resolved ())\<rparr>
         else
           (case session_lookupAuthenticator e (authenticator s1) of
              Inl err \<Rightarrow> \<lparr>after = s1, effects = [], completion = Thrown err\<rparr>
            | Inr a \<Rightarrow>
                (case do_invalidate a (authenticated (content s1)) args of
                   Resolved _ \<Rightarrow>
                     from_callback
                       (session_clear e
                          (s1\<lparr>listeners :=
                                removeAll (authenticator s1, SessionDataUpdated) (listeners s1),
                              busy := False\<rparr>)
                          True)
                 | Rejected err \<Rightarrow>
                     \<lparr>after = s1\<lparr>busy := False\<rparr>,
                      effects = [Trigger (SessionInvalidationFailed err)],
                      completion = Promised (Rejected (Value err))\<rparr>
                 | Pending \<Rightarrow>
                     \<lparr>after = s1, effects = [], completion = Promised Pending\<rparr>)))"

text \<open>
  \<^verbatim>\<open>let { authenticator: authenticatorFactory } = content.authenticated || {}\<close> and
  \<^verbatim>\<open>delete content.authenticated.authenticator\<close>
\<close>

definition authenticator_of :: "content \<Rightarrow> jsval" where
  "authenticator_of c =
     get_property (case authenticated c of None \<Rightarrow> [] | Some d \<Rightarrow> d) ''authenticator''"

definition delete_authenticator :: "content \<Rightarrow> content" where
  "delete_authenticator c =
     c\<lparr>authenticated := map_option (AList.delete ''authenticator'') (authenticated c)\<rparr>"

text \<open>\<^verbatim>\<open>restore\<close>; \<^verbatim>\<open>reject\<close> there is \<^verbatim>\<open>() => Promise.reject()\<close>.\<close>

definition session_restore :: "env \<Rightarrow> session \<Rightarrow> outcome" where
  "session_restore e s =
     (let s1 = s\<lparr>busy := True\<rparr>
      in (case store_restore e of
            Resolved restoredContent \<Rightarrow>
              let authenticatorFactory = authenticator_of restoredContent
              in if truthy authenticatorFactory then
                   let restoredContent1 = delete_authenticator restoredContent
                   in (case session_lookupAuthenticator e authenticatorFactory of
                         Inl err \<Rightarrow>
                           \<lparr>after = s1, effects = [], completion = Promised (Rejected err)\<rparr>
                       | Inr a \<Rightarrow>
                           (case do_restore a (authenticated restoredContent1) of
                              Resolved c \<Rightarrow>
                                from_callback
                                  (session_setup e
                                     (s1\<lparr>content := restoredContent1, busy := False\<rparr>)
                                     authenticatorFactory c False)
                            | Rejected err \<Rightarrow>
                                then_reject (Value JUndefined)
                                  (session_clearWithContent e (s1\<lparr>busy := False\<rparr>)
                                     restoredContent1 False)
                            | Pending \<Rightarrow>
                                \<lparr>after = s1, effects = [], completion = Promised Pending\<rparr>))
                 else
                   then_reject (Value JUndefined)
                     (session_clearWithContent e (s1\<lparr>busy := False\<rparr>)
                        (restoredContent\<lparr>authenticated := None\<rparr>) False)
          | Rejected err \<Rightarrow>
              then_reject (Value JUndefined) (session_clear e (s1\<lparr>busy := False\<rparr>) False)
          | Pending \<Rightarrow> \<lparr>after = s1, effects = [], completion = Promised Pending\<rparr>))"

text \<open>
  \<^verbatim>\<open>setUnknownProperty\<close> refuses the key \<^verbatim>\<open>authenticated\<close>, has \<^verbatim>\<open>ObjectProxy\<close> write
  the key into the content and persists, unless the key starts with an underscore. The
  promise of \<^verbatim>\<open>_updateStore\<close> is dropped.
\<close>

definition session_setUnknownProperty :: "env \<Rightarrow> session \<Rightarrow> string \<Rightarrow> jsval \<Rightarrow> outcome" where
  "session_setUnknownProperty e s k v =
     (if k = ''authenticated''
      then \<lparr>after = s, effects = [], completion = Thrown ReservedKey\<rparr>
      else
        (case ember_set e (content s) k v of
           Inl err \<Rightarrow> \<lparr>after = s, effects = [], completion = Thrown (Value err)\<rparr>
         | Inr c \<Rightarrow>
             let s1 = s\<lparr>content := c\<rparr>
             in if \<not> (case k of [] \<Rightarrow> False | x # _ \<Rightarrow> x = CHR ''_'')
                then let (s2, eff, p) = session_updateStore e s1
                     in \<lparr>after = s2, effects = eff, completion = Returned\<rparr>
                else \<lparr>after = s1, effects = [], completion = Returned\<rparr>))"

text \<open>The handlers of the two events of the authenticator.\<close>

definition session_onSessionDataUpdated :: "env \<Rightarrow> session \<Rightarrow> object option \<Rightarrow> outcome" where
  "session_onSessionDataUpdated e s c = session_setup e s (authenticator s) c False"

definition session_onSessionDataInvalidated :: "env \<Rightarrow> session \<Rightarrow> outcome" where
  "session_onSessionDataInvalidated e s = session_clear e s True"

text \<open>
  The handler \<^verbatim>\<open>_bindToStoreEvents\<close> binds to the \<^verbatim>\<open>sessionDataUpdated\<close> event of the
  store.
\<close>

definition session_onStoreSessionDataUpdated :: "env \<Rightarrow> session \<Rightarrow> content \<Rightarrow> outcome" where
  "session_onStoreSessionDataUpdated e s c =
     (if \<not> busy s then
        let s1 = s\<lparr>busy := True\<rparr>;
            authenticatorFactory = authenticator_of c
        in if truthy authenticatorFactory then
             let c1 = delete_authenticator c
             in (case session_lookupAuthenticator e authenticatorFactory of
                   Inl err \<Rightarrow> \<lparr>after = s1, effects = [], completion = Thrown err\<rparr>
                 | Inr a \<Rightarrow>
                     (case do_restore a (authenticated c1) of
                        Resolved authenticatedContent \<Rightarrow>
                          session_setup e (s1\<lparr>content := c1, busy := False\<rparr>)
                            authenticatorFactory authenticatedContent True
                      | Rejected err \<Rightarrow>
                          session_clearWithContent e (s1\<lparr>busy := False\<rparr>) c1 True
                      | Pending \<Rightarrow>
                          \<lparr>after = s1, effects = [], completion = Promised Pending\<rparr>))
           else session_clearWithContent e (s1\<lparr>busy := False\<rparr>) c True
      else \<lparr>after = s, effects = [], completion = Returned\<rparr>)"

subsection \<open>Executions\<close>





definition succeeded :: "effect list \<Rightarrow> nat" where
  "succeeded effs = length (filter (\<lambda>x. x = Trigger AuthenticationSucceeded) effs)"

definition triggers :: "effect list \<Rightarrow> event list" where
  "triggers effs = concat (map (\<lambda>x. case x of Trigger ev \<Rightarrow> [ev] | Persist _ \<Rightarrow> []) effs)"

section \<open>Concrete inputs\<close>

subsection \<open>For the authenticator\<close>

definition demo_config :: config where
  "demo_config =
     \<lparr>clientId = None, serverTokenEndpoint = ''/token'',
      serverTokenRevocationEndpoint = None, refreshAccessTokens = True,
      refreshAccessTokensWithScope = False, isFastBoot = False, isTesting = False\<rparr>"

definition revoking_config :: config where
  "revoking_config = demo_config\<lparr>serverTokenRevocationEndpoint := Some ''/revoke''\<rparr>"

definition no_token :: json where
  "no_token =
     \<lparr>access_token = None, token_type = Some ''bearer'', expires_in = Some (Num 3600),
      expires_at = None, refresh_token = Some ''RT1'', scope = None, error = None\<rparr>"

definition fresh_token :: json where
  "fresh_token =
     \<lparr>access_token = Some ''AT2'', token_type = Some ''bearer'', expires_in = Some (Num 3600),
      expires_at = None, refresh_token = Some ''RT2'', scope = None, error = None\<rparr>"

definition bare_token :: json where
  "bare_token =
     \<lparr>access_token = Some ''AT2'', token_type = Some ''bearer'', expires_in = None,
      expires_at = None, refresh_token = None, scope = None, error = None\<rparr>"

definition expired_data :: json where
  "expired_data =
     \<lparr>access_token = Some ''AT1'', token_type = Some ''bearer'', expires_in = Some (Num 3600),
      expires_at = Some (Num 500), refresh_token = Some ''RT1'', scope = None, error = None\<rparr>"

definition expired_data_no_expires_in :: json where
  "expired_data_no_expires_in =
     \<lparr>access_token = Some ''AT1'', token_type = Some ''bearer'', expires_in = None,
      expires_at = Some (Num 500), refresh_token = Some ''RT1'', scope = None, error = None\<rparr>"

text \<open>A server that answers every request with the same body and HTTP success.\<close>

definition demo_world :: "json \<Rightarrow> world" where
  "demo_world j =
     \<lparr>clock = (\<lambda>n. 1000000 + int n), math_random = (\<lambda>n. 0),
      fetch = (\<lambda>n r. Response True (Json j))\<rparr>"

text \<open>A server that refuses every request with an HTTP error.\<close>

definition refusing_world :: world where
  "refusing_world =
     \<lparr>clock = (\<lambda>n. 1000000 + int n), math_random = (\<lambda>n. 0),
      fetch = (\<lambda>n r. Response False (Json no_token))\<rparr>"

text \<open>A server that refuses the first request and never answers the later ones.\<close>

definition failing_then_silent :: world where
  "failing_then_silent =
     \<lparr>clock = (\<lambda>n. 1000000 + int n), math_random = (\<lambda>n. 0),
      fetch = (\<lambda>n r. if n = 0 then Response False (Json no_token) else NoReply)\<rparr>"

text \<open>The authenticator after a first successful \<^verbatim>\<open>authenticate\<close>: one timer is pending.\<close>

definition authenticated_state :: state where
  "authenticated_state =
     snd (oauth2_authenticate demo_config (demo_world fresh_token) initial_state
            ''bob'' ''pw'' [] [])"

text \<open>A server that answers every request with HTTP success and the body \<^verbatim>\<open>null\<close>.\<close>

definition null_world :: world where
  "null_world =
     \<lparr>clock = (\<lambda>n. 1000000 + int n), math_random = (\<lambda>n. 0),
      fetch = (\<lambda>n r. Response True JsonNull)\<rparr>"

text \<open>A snapshot whose only expiry information is \<open>expires_in = 0\<close>, and a far expiry.\<close>

definition expired_data_zero :: json where
  "expired_data_zero = expired_data\<lparr>expires_in := Some (Num 0)\<rparr>"

definition far_token :: json where
  "far_token = fresh_token\<lparr>expires_in := Some (Num 10000000000000)\<rparr>"

subsection \<open>For the session\<close>

text \<open>
  An authenticator that accepts everything, one that rejects everything, an owner that
  knows them under two names, a store that accepts every write and one that refuses every
  write. \<open>plain_set\<close> writes a key without dots among the other keys of the content,
  writes \<^verbatim>\<open>authenticated.k\<close> into the session data when there is some, and throws on
  every other path.
\<close>

definition plain_set :: "content \<Rightarrow> string \<Rightarrow> jsval \<Rightarrow> jsval + content" where
  "plain_set c k v =
     (if CHR ''.'' \<notin> set k then Inr (c\<lparr>properties := AList.update k v (properties c)\<rparr>)
      else if take 14 k = ''authenticated.'' \<and> CHR ''.'' \<notin> set (drop 14 k) \<and> drop 14 k \<noteq> []
      then (case authenticated c of
              None \<Rightarrow> Inl (JStr ''Property set failed'')
            | Some d \<Rightarrow> Inr (c\<lparr>authenticated := Some (AList.update (drop 14 k) v d)\<rparr>))
      else Inl (JStr ''Property set failed''))"

definition accepting :: authenticator_object where
  "accepting =
     \<lparr>do_authenticate = (\<lambda>args. Resolved (Some [(''access_token'', JStr ''AT1'')])),
      do_restore = (\<lambda>d. Resolved d),
      do_invalidate = (\<lambda>d args. Resolved ())\<rparr>"

definition rejecting :: authenticator_object where
  "rejecting =
     \<lparr>do_authenticate = (\<lambda>args. Rejected (JStr ''invalid_grant'')),
      do_restore = (\<lambda>d. Rejected JUndefined),
      do_invalidate = (\<lambda>d args. Rejected (JStr ''revocation failed''))\<rparr>"

definition demo_env :: env where
  "demo_env =
     \<lparr>owner_lookup =
        (\<lambda>n. if n = JStr ''authenticator:x'' then Some accepting
             else if n = JStr ''authenticator:no'' then Some rejecting
             else None),
      store_persist = (\<lambda>c. Resolved ()),
      store_restore = Rejected JUndefined,
      ember_set = plain_set\<rparr>"

definition full_store_env :: env where
  "full_store_env = demo_env\<lparr>store_persist := (\<lambda>c. Rejected (JStr ''quota exceeded''))\<rparr>"

text \<open>What another tab writes when it authenticates with \<^verbatim>\<open>authenticator:x\<close>.\<close>

definition notified :: content where
  "notified =
     \<lparr>authenticated = Some [(''authenticator'', JStr ''authenticator:x''),
                             (''access_token'', JStr ''AT2'')],
      properties = []\<rparr>"

text \<open>The session after \<^verbatim>\<open>authenticate('authenticator:x')\<close> has succeeded.\<close>

definition signed_in :: session where
  "signed_in =
     \<lparr>authenticator = JStr ''authenticator:x'', isAuthenticated = True,
      attemptedTransition = Some 7,
      content = \<lparr>authenticated = Some [(''authenticator'', JStr ''authenticator:x''),
                                        (''access_token'', JStr ''AT1'')],
                 properties = []\<rparr>,
      busy = False,
      listeners = [(JStr ''authenticator:x'', SessionDataInvalidated),
                   (JStr ''authenticator:x'', SessionDataUpdated)]\<rparr>"

text \<open>The same session with an object of session data that has no name in it yet.\<close>

definition fresh :: session where
  "fresh =
     signed_in\<lparr>content :=
       \<lparr>authenticated = Some [(''access_token'', JStr ''AT1'')], properties = []\<rparr>\<rparr>"

text \<open>The same session with session data that has a key \<^verbatim>\<open>authenticator\<close> of its own.\<close>

definition overridden :: session where
  "overridden =
     signed_in\<lparr>content :=
       \<lparr>authenticated = Some [(''access_token'', JStr ''AT1''),
                               (''authenticator'', JStr ''authenticator:other'')],
        properties = []\<rparr>\<rparr>"

text \<open>
  What another tab writes when it authenticates with \<^verbatim>\<open>authenticator:no\<close>, whose
  \<^verbatim>\<open>restore\<close> rejects, and what it writes when it signs out.
\<close>

definition refused :: content where
  "refused =
     \<lparr>authenticated = Some [(''authenticator'', JStr ''authenticator:no''),
                             (''access_token'', JStr ''AT2'')],
      properties = []\<rparr>"

definition signed_out :: content where
  "signed_out = \<lparr>authenticated = Some [], properties = []\<rparr>"

text \<open>
  What another tab writes when it authenticates with an authenticator this application
  does not have; an authenticator none of whose promises is ever settled, and an owner
  that has it under every name.
\<close>

definition stranger :: content where
  "stranger =
     \<lparr>authenticated = Some [(''authenticator'', JStr ''authenticator:gone''),
                             (''access_token'', JStr ''AT2'')],
      properties = []\<rparr>"

definition silent :: authenticator_object where
  "silent =
     \<lparr>do_authenticate = (\<lambda>args. Pending),
      do_restore = (\<lambda>d. Pending),
      do_invalidate = (\<lambda>d args. Pending)\<rparr>"

definition slow_env :: env where
  "slow_env = demo_env\<lparr>owner_lookup := (\<lambda>n. Some silent)\<rparr>"


section \<open>Properties of the authenticator\<close>

lemmas oauth2_defs =
  oauth2_authenticate_def oauth2_restore_def oauth2_refreshAccessToken_def
  oauth2_invalidate_def oauth2_makeRequest_def oauth2_scheduleAccessTokenRefresh_def
  oauth2_absolutizeExpirationTime_def oauth2_validate_def build_request_def
  password_grant_form_def known_expiry_def getTime_def tokenRefreshOffset_def
  cancel_refresh_def cancel_def later_def isEmpty_str_def isEmpty_num_def js_or_str_def
  js_or_num_def resolve_def reject_def promise_all_def initial_state_def fire_timer_def
  millis_after_def date_getTime_def

lemmas demo_defs =
  demo_config_def revoking_config_def demo_world_def refusing_world_def
  failing_then_silent_def no_token_def fresh_token_def bare_token_def expired_data_def
  expired_data_no_expires_in_def null_world_def expired_data_zero_def far_token_def

lemma authenticated_state_eq:
  "authenticated_state =
     \<lparr>refreshTokenTimeout = Some 0,
      timers = [\<lparr>timer_id = 0, timer_delay = 3594999, timer_expiresIn = Some (Num 3600),
                 timer_refreshToken = Some ''RT2''\<rparr>],
      next_timer = 1, reads = 2, draws = 1,
      sent = [\<lparr>url = ''/token'',
               form = [(''grant_type'', Some ''password''), (''username'', Some ''bob''),
                       (''password'', Some ''pw'')],
               headers = [(''Content-Type'', ''application/x-www-form-urlencoded'')],
               http_method = ''POST''\<rparr>],
      triggered = []\<rparr>"
  by (simp add: authenticated_state_def oauth2_defs demo_defs Let_def)

lemma reachable_authenticated_state:
  "reachable demo_config (demo_world fresh_token) authenticated_state"
  unfolding authenticated_state_def by (intro reach_authenticate reach_init)

subsection \<open>authenticate and a response without an access token\<close>

text \<open>
  C1 says that \<^verbatim>\<open>authenticate\<close>, answered with HTTP success and a body without an
  \<open>access_token\<close>, is rejected with the response and does nothing else: no refresh
  is scheduled, no \<open>expires_at\<close> is attached. The code does otherwise, here at two
  such answers. For the body
  \<^verbatim>\<open>{token_type: "bearer", expires_in: 3600, refresh_token: "RT1"}\<close> the promise is
  rejected with the message \<^verbatim>\<open>access_token is missing in server response\<close>, not with
  the response, and, there being no \<^verbatim>\<open>return\<close> after the \<^verbatim>\<open>reject\<close>, the refresh is
  scheduled all the same: timer 0 is pending and \<^verbatim>\<open>_refreshTokenTimeout\<close> names it. For
  the body \<^verbatim>\<open>null\<close> the promise is never settled.
\<close>

theorem authenticate_invalid_response_evaluated:
  "oauth2_authenticate demo_config (demo_world no_token) initial_state ''bob'' ''pw'' [] [] =
     (Rejected (Message ''access_token is missing in server response''),
      \<lparr>refreshTokenTimeout = Some 0,
       timers = [\<lparr>timer_id = 0, timer_delay = 3594999, timer_expiresIn = Some (Num 3600),
                  timer_refreshToken = Some ''RT1''\<rparr>],
       next_timer = 1, reads = 2, draws = 1,
       sent = [\<lparr>url = ''/token'',
                form = [(''grant_type'', Some ''password''), (''username'', Some ''bob''),
                        (''password'', Some ''pw'')],
                headers = [(''Content-Type'', ''application/x-www-form-urlencoded'')],
                http_method = ''POST''\<rparr>],
       triggered = []\<rparr>) \<and>
   oauth2_authenticate demo_config null_world initial_state ''bob'' ''pw'' [] [] =
     (Pending,
      initial_state
        \<lparr>sent := [\<lparr>url = ''/token'',
                   form = [(''grant_type'', Some ''password''), (''username'', Some ''bob''),
                           (''password'', Some ''pw'')],
                   headers = [(''Content-Type'', ''application/x-www-form-urlencoded'')],
                   http_method = ''POST''\<rparr>]\<rparr>)"
  by (simp add: oauth2_defs demo_defs Let_def)

subsection \<open>At most one pending timer\<close>

lemma one_timer_cancel_refresh: "one_timer st \<Longrightarrow> timers (cancel_refresh st) = []"
proof (cases "timers st")
  case Nil
  then show ?thesis
    by (simp add: cancel_refresh_def cancel_def split: option.splits)
next
  case (Cons t ts)
  assume "one_timer st"
  with Cons have "ts = []" and "refreshTokenTimeout st = Some (timer_id t)"
    by (simp_all add: one_timer_def split: list.splits)
  with Cons show ?thesis
    by (simp add: cancel_refresh_def cancel_def)
qed

lemma one_timer_no_timers: "timers st = [] \<Longrightarrow> one_timer st"
  by (simp add: one_timer_def)

lemma one_timer_reads [simp]: "one_timer (st\<lparr>reads := n\<rparr>) = one_timer st"
  by (simp add: one_timer_def split: list.splits)

lemma one_timer_draws [simp]: "one_timer (st\<lparr>draws := n\<rparr>) = one_timer st"
  by (simp add: one_timer_def split: list.splits)

lemma one_timer_sent [simp]: "one_timer (st\<lparr>sent := n\<rparr>) = one_timer st"
  by (simp add: one_timer_def split: list.splits)

lemma one_timer_triggered [simp]: "one_timer (st\<lparr>triggered := n\<rparr>) = one_timer st"
  by (simp add: one_timer_def split: list.splits)

lemma one_timer_later:
  "timers st = [] \<Longrightarrow> one_timer (later expiresIn refreshToken delay st)"
  by (simp add: one_timer_def later_def)

lemma one_timer_schedule:
  assumes "one_timer st"
  shows "one_timer (oauth2_scheduleAccessTokenRefresh c w st expiresIn expiresAt refreshToken)"
proof -
  have a: "one_timer (st\<lparr>reads := n, draws := m\<rparr>)" for n m
    using assms by simp
  have b: "timers (cancel_refresh (st\<lparr>reads := n, draws := m\<rparr>)) = []" for n m
    by (rule one_timer_cancel_refresh [OF a])
  show ?thesis
    using assms a b
    by (simp add: oauth2_scheduleAccessTokenRefresh_def getTime_def tokenRefreshOffset_def
        Let_def one_timer_later one_timer_no_timers split: option.splits number.splits)
qed

lemma one_timer_absolutize:
  "one_timer st \<Longrightarrow> one_timer (snd (oauth2_absolutizeExpirationTime w st expiresIn))"
  by (simp add: oauth2_absolutizeExpirationTime_def getTime_def split: option.splits)

lemma one_timer_makeRequest:
  "one_timer st \<Longrightarrow> one_timer (snd (oauth2_makeRequest c w st u data hs))"
  by (simp add: oauth2_makeRequest_def Let_def)

lemma one_timer_refresh:
  assumes "one_timer st"
  shows "one_timer (snd (oauth2_refreshAccessToken c w st expiresIn refreshToken scp))"
proof -
  let ?data = "if refreshAccessTokensWithScope c \<and> \<not> isEmpty_str scp
      then AList.update ''scope'' scp
        [(''grant_type'', Some ''refresh_token''), (''refresh_token'', refreshToken)]
      else [(''grant_type'', Some ''refresh_token''), (''refresh_token'', refreshToken)]"
  obtain p st1 where m: "oauth2_makeRequest c w st (serverTokenEndpoint c) ?data [] = (p, st1)"
    by (cases "oauth2_makeRequest c w st (serverTokenEndpoint c) ?data []") blast
  have st1: "one_timer st1"
    using one_timer_makeRequest [OF assms, of c w "serverTokenEndpoint c" ?data "[]"] m
    by simp
  show ?thesis
  proof (cases p)
    case (Resolved parsed)
    show ?thesis
    proof (cases parsed)
      case None
      with m st1 Resolved show ?thesis
        by (simp add: oauth2_refreshAccessToken_def Let_def)
    next
      case (Some response)
      obtain ea st2 where ab: "oauth2_absolutizeExpirationTime w st1
          (js_or_num (expires_in response) expiresIn) = (ea, st2)"
        by (cases "oauth2_absolutizeExpirationTime w st1
          (js_or_num (expires_in response) expiresIn)") blast
      have "one_timer st2"
        using one_timer_absolutize [OF st1, of w "js_or_num (expires_in response) expiresIn"] ab
        by simp
      then have "one_timer (oauth2_scheduleAccessTokenRefresh c w st2
          (js_or_num (expires_in response) expiresIn) None
          (js_or_str (refresh_token response) refreshToken))"
        by (rule one_timer_schedule)
      with m Resolved Some ab show ?thesis
        by (simp add: oauth2_refreshAccessToken_def Let_def)
    qed
  next
    case Pending
    with m st1 show ?thesis
      by (simp add: oauth2_refreshAccessToken_def Let_def)
  next
    case (Rejected r)
    with m st1 show ?thesis
      by (simp add: oauth2_refreshAccessToken_def Let_def)
  qed
qed

lemma one_timer_authenticate:
  assumes "one_timer st"
  shows "one_timer (snd (oauth2_authenticate c w st identification password scp hs))"
proof -
  let ?data = "password_grant_form identification password scp"
  obtain p st1 where m: "oauth2_makeRequest c w st (serverTokenEndpoint c) ?data hs = (p, st1)"
    by (cases "oauth2_makeRequest c w st (serverTokenEndpoint c) ?data hs") blast
  have st1: "one_timer st1"
    using one_timer_makeRequest [OF assms, of c w "serverTokenEndpoint c" ?data hs] m
    by simp
  show ?thesis
  proof (cases p)
    case (Resolved parsed)
    show ?thesis
    proof (cases parsed)
      case None
      with m st1 Resolved show ?thesis
        by (simp add: oauth2_authenticate_def Let_def)
    next
      case (Some response)
      obtain ea st2 where ab:
        "oauth2_absolutizeExpirationTime w st1 (expires_in response) = (ea, st2)"
        by (cases "oauth2_absolutizeExpirationTime w st1 (expires_in response)") blast
      have "one_timer st2"
        using one_timer_absolutize [OF st1, of w "expires_in response"] ab by simp
      then have "one_timer (oauth2_scheduleAccessTokenRefresh c w st2
          (expires_in response) ea (refresh_token response))"
        by (rule one_timer_schedule)
      with m Resolved Some ab show ?thesis
        by (simp add: oauth2_authenticate_def Let_def)
    qed
  next
    case Pending
    with m st1 show ?thesis
      by (simp add: oauth2_authenticate_def Let_def)
  next
    case (Rejected r)
    with m st1 show ?thesis
      by (simp add: oauth2_authenticate_def Let_def)
  qed
qed

lemma one_timer_restore:
  assumes "one_timer st"
  shows "one_timer (snd (oauth2_restore c w st data))"
proof -
  have a: "one_timer (st\<lparr>reads := Suc (reads st)\<rparr>)"
    using assms by simp
  show ?thesis
    using a one_timer_refresh [OF a] one_timer_schedule [OF a]
    by (simp add: oauth2_restore_def getTime_def Let_def)
qed

lemma one_timer_revoke_tokens:
  "one_timer st \<Longrightarrow> one_timer (snd (revoke_tokens c w st endpoint tokens))"
proof (induction tokens arbitrary: st)
  case Nil
  then show ?case by simp
next
  case (Cons a tokens)
  obtain tokenType token where a: "a = (tokenType, token)"
    by (cases a)
  show ?case
  proof (cases "isEmpty_str token")
    case True
    with a Cons show ?thesis by simp
  next
    case False
    let ?r = "oauth2_makeRequest c w st endpoint
                [(''token_type_hint'', Some tokenType), (''token'', token)] []"
    have "one_timer (snd ?r)"
      by (rule one_timer_makeRequest [OF Cons.prems])
    then have "one_timer (snd (revoke_tokens c w (snd ?r) endpoint tokens))"
      by (rule Cons.IH)
    with a False show ?thesis
      by (simp add: Let_def case_prod_beta)
  qed
qed

lemma one_timer_invalidate:
  assumes "one_timer st"
  shows "one_timer (snd (oauth2_invalidate c w st data))"
proof -
  let ?r = "revoke_tokens c w st (the (serverTokenRevocationEndpoint c))
              [(''access_token'', access_token data), (''refresh_token'', refresh_token data)]"
  have a: "one_timer (snd ?r)"
    by (rule one_timer_revoke_tokens [OF assms])
  have b: "one_timer (cancel_refresh (snd ?r))"
    by (rule one_timer_no_timers [OF one_timer_cancel_refresh [OF a]])
  have c: "one_timer (cancel_refresh st)"
    by (rule one_timer_no_timers [OF one_timer_cancel_refresh [OF assms]])
  show ?thesis
    using a b c
    by (simp add: oauth2_invalidate_def Let_def case_prod_beta del: revoke_tokens.simps
        split: promise.splits)
qed

lemma one_timer_fire:
  assumes "one_timer st"
  shows "one_timer (snd (fire_timer c w st t))"
proof -
  have "one_timer (st\<lparr>timers := remove1 t (timers st)\<rparr>)"
    using assms by (auto simp: one_timer_def split: list.splits)
  then show ?thesis
    unfolding fire_timer_def by (rule one_timer_refresh)
qed

lemma reachable_one_timer: "reachable c w st \<Longrightarrow> one_timer st"
proof (induction rule: reachable.induct)
  case reach_init
  show ?case by (simp add: one_timer_def initial_state_def)
next
  case (reach_authenticate st identification password scp hs)
  then show ?case by (simp add: one_timer_authenticate)
next
  case (reach_restore st data)
  then show ?case by (simp add: one_timer_restore)
next
  case (reach_invalidate st data)
  then show ?case by (simp add: one_timer_invalidate)
next
  case (reach_fire st t)
  then show ?case by (simp add: one_timer_fire)
qed

lemma one_timer_length: "one_timer st \<Longrightarrow> length (timers st) \<le> 1"
  by (simp add: one_timer_def split: list.splits)

subsection \<open>When a refresh is scheduled\<close>

text \<open>
  C8 (as amended). \<open>now\<close> is the time \<^verbatim>\<open>_scheduleAccessTokenRefresh\<close> reads and
  \<open>offset\<close> the value of \<^verbatim>\<open>tokenRefreshOffset\<close>. The method sets a timer (takes a
  new handle from the run loop) exactly when refresh is enabled, the application does not
  run in FastBoot, it does not run under test, the refresh token is not empty, and an
  expiry is known that is a number greater than \<open>now - offset\<close>; the expiry is the
  \<open>expiresAt\<close> given or, when none is given, the date \<open>expiresIn\<close> seconds after
  \<open>now\<close>, and an invalid date (\<^verbatim>\<open>NaN\<close>) is no such number. The timer is then set
  with the delay \<open>expiresAt - now - offset\<close>, which is greater than
  \<open>- 2 * offset\<close> and may be negative, and the timer that \<^verbatim>\<open>_refreshTokenTimeout\<close>
  named before has been cancelled: the pending timers are the earlier ones without it, and
  the new one. In every state the authenticator reaches, and after scheduling from it, at
  most one timer is pending.
\<close>

theorem refresh_scheduled_only_when:
  assumes "s1 = oauth2_scheduleAccessTokenRefresh c w st expiresIn expiresAt refreshToken"
    and "now = clock w (reads st)"
    and "offset = (math_random w (draws st) + 5) * 1000"
  shows
   "(next_timer s1 = Suc (next_timer st)) =
      (refreshAccessTokens c \<and> \<not> isFastBoot c \<and> \<not> isTesting c \<and>
       \<not> isEmpty_str refreshToken \<and>
       (\<exists>ea. known_expiry now expiresIn expiresAt = Some (Num ea) \<and> ea > now - offset)) \<and>
    (next_timer s1 = Suc (next_timer st) \<longrightarrow>
       (\<exists>ea. known_expiry now expiresIn expiresAt = Some (Num ea) \<and>
          timers s1 =
            cancel (refreshTokenTimeout st) (timers st) @
            [\<lparr>timer_id = next_timer st, timer_delay = ea - now - offset,
              timer_expiresIn = expiresIn, timer_refreshToken = refreshToken\<rparr>] \<and>
          ea - now - offset > - 2 * offset \<and>
          refreshTokenTimeout s1 = Some (next_timer st))) \<and>
    (next_timer s1 \<noteq> Suc (next_timer st) \<longrightarrow>
       next_timer s1 = next_timer st \<and> set (timers s1) \<subseteq> set (timers st)) \<and>
    (reachable c w st \<longrightarrow> length (timers s1) \<le> 1 \<and> length (timers st) \<le> 1)"
proof (intro conjI impI)
  show "(next_timer s1 = Suc (next_timer st)) =
      (refreshAccessTokens c \<and> \<not> isFastBoot c \<and> \<not> isTesting c \<and>
       \<not> isEmpty_str refreshToken \<and>
       (\<exists>ea. known_expiry now expiresIn expiresAt = Some (Num ea) \<and> ea > now - offset))"
    unfolding assms
    by (auto simp: oauth2_scheduleAccessTokenRefresh_def getTime_def tokenRefreshOffset_def
        Let_def cancel_refresh_def later_def split: option.splits number.splits)
next
  assume "next_timer s1 = Suc (next_timer st)"
  then show "\<exists>ea. known_expiry now expiresIn expiresAt = Some (Num ea) \<and>
          timers s1 =
            cancel (refreshTokenTimeout st) (timers st) @
            [\<lparr>timer_id = next_timer st, timer_delay = ea - now - offset,
              timer_expiresIn = expiresIn, timer_refreshToken = refreshToken\<rparr>] \<and>
          ea - now - offset > - 2 * offset \<and>
          refreshTokenTimeout s1 = Some (next_timer st)"
    unfolding assms
    by (auto simp: oauth2_scheduleAccessTokenRefresh_def getTime_def tokenRefreshOffset_def
        Let_def cancel_refresh_def later_def split: option.splits number.splits if_splits)
next
  assume "next_timer s1 \<noteq> Suc (next_timer st)"
  then show "next_timer s1 = next_timer st" "set (timers s1) \<subseteq> set (timers st)"
    unfolding assms
    by (auto simp: oauth2_scheduleAccessTokenRefresh_def getTime_def tokenRefreshOffset_def
        Let_def cancel_refresh_def cancel_def later_def
        split: option.splits number.splits if_splits)
next
  assume r: "reachable c w st"
  then have o: "one_timer st" by (rule reachable_one_timer)
  from o show "length (timers st) \<le> 1" by (rule one_timer_length)
  from o show "length (timers s1) \<le> 1"
    unfolding assms by (intro one_timer_length one_timer_schedule)
qed

text \<open>
  After a first \<^verbatim>\<open>authenticate\<close> timer 0 is pending. Scheduling again for a token that
  expires in 3600 seconds cancels it and sets timer 1, to fire after 3595000 milliseconds.
  For a token that expires in 10000000000000 seconds the date is invalid and no timer is
  set; nor is one set under test.
\<close>

theorem refresh_scheduled_only_when_witness:
  "next_timer (oauth2_scheduleAccessTokenRefresh demo_config (demo_world fresh_token)
       authenticated_state (Some (Num 3600)) None (Some ''RT2'')) =
     Suc (next_timer authenticated_state) \<and>
   timers (oauth2_scheduleAccessTokenRefresh demo_config (demo_world fresh_token)
       authenticated_state (Some (Num 3600)) None (Some ''RT2'')) =
     [\<lparr>timer_id = 1, timer_delay = 3595000, timer_expiresIn = Some (Num 3600),
       timer_refreshToken = Some ''RT2''\<rparr>] \<and>
   refreshTokenTimeout (oauth2_scheduleAccessTokenRefresh demo_config (demo_world fresh_token)
       authenticated_state (Some (Num 3600)) None (Some ''RT2'')) = Some 1 \<and>
   length (timers (oauth2_scheduleAccessTokenRefresh demo_config (demo_world fresh_token)
       authenticated_state (Some (Num 3600)) None (Some ''RT2''))) \<le> 1 \<and>
   length (timers authenticated_state) \<le> 1 \<and>
   next_timer (oauth2_scheduleAccessTokenRefresh demo_config (demo_world fresh_token)
       authenticated_state (Some (Num 10000000000000)) None (Some ''RT2'')) =
     next_timer authenticated_state \<and>
   next_timer (oauth2_scheduleAccessTokenRefresh (demo_config\<lparr>isTesting := True\<rparr>)
       (demo_world fresh_token) authenticated_state (Some (Num 3600)) None (Some ''RT2'')) =
     next_timer authenticated_state"
  using refresh_scheduled_only_when [OF refl refl refl, of demo_config "demo_world fresh_token"
      authenticated_state "Some (Num 3600)" None "Some ''RT2''"]
    refresh_scheduled_only_when [OF refl refl refl, of demo_config "demo_world fresh_token"
      authenticated_state "Some (Num 10000000000000)" None "Some ''RT2''"]
    refresh_scheduled_only_when [OF refl refl refl, of "demo_config\<lparr>isTesting := True\<rparr>"
      "demo_world fresh_token" authenticated_state "Some (Num 3600)" None "Some ''RT2''"]
    reachable_authenticated_state
  by (simp add: authenticated_state_eq demo_defs known_expiry_def millis_after_def
      date_getTime_def isEmpty_str_def cancel_def)

text \<open>
  C8 as stated fails where it has the computed fire time in the future. The server's
  token expires in 1 second. At 1000000, with the offset 5000, the expiry 1001000 is
  greater than \<open>now - offset\<close>, and the timer is set with the delay
  \<open>1001000 - 1000000 - 5000 = - 4000\<close>: its fire time is in the past.
\<close>

theorem refresh_scheduled_only_when_counterexample:
  "oauth2_scheduleAccessTokenRefresh demo_config (demo_world fresh_token) initial_state
     (Some (Num 1)) None (Some ''RT2'') =
   \<lparr>refreshTokenTimeout = Some 0,
    timers = [\<lparr>timer_id = 0, timer_delay = - 4000, timer_expiresIn = Some (Num 1),
               timer_refreshToken = Some ''RT2''\<rparr>],
    next_timer = 1, reads = 1, draws = 1, sent = [], triggered = []\<rparr>"
  by (simp add: oauth2_defs demo_defs Let_def)

subsection \<open>restore\<close>

lemma refresh_resolved_expiry:
  assumes "fst (oauth2_refreshAccessToken c w st expiresIn refreshToken scp) = Resolved d"
  shows "expires_at d = map_option (millis_after (clock w (reads st))) (expires_in d)"
  using assms
  by (auto simp: oauth2_refreshAccessToken_def oauth2_makeRequest_def
      oauth2_absolutizeExpirationTime_def getTime_def Let_def case_prod_beta
      split: promise.splits option.splits if_splits)

text \<open>
  C2 (as amended). \<open>now\<close> is the time \<^verbatim>\<open>restore\<close> reads first and \<open>t\<close> the time
  read next, after the reply to the refresh request. If \<open>expires_at\<close> is a number less
  than \<open>now\<close>: with refresh enabled, \<^verbatim>\<open>restore\<close> is the immediate
  \<^verbatim>\<open>_refreshAccessToken\<close> with the stored \<open>expires_in\<close>, \<open>refresh_token\<close> and
  \<open>scope\<close> (same outcome, same effects); with refresh disabled it is rejected. If
  \<open>expires_at\<close> is absent, \<^verbatim>\<open>NaN\<close> or not less than \<open>now\<close>, \<^verbatim>\<open>restore\<close> is
  resolved with the data unchanged, after \<^verbatim>\<open>_scheduleAccessTokenRefresh\<close>, when
  \<open>access_token\<close> is not empty, and rejected when it is empty. In the expired case
  with refresh enabled, a resolved outcome that has an \<open>expires_in\<close> has as
  \<open>expires_at\<close> the date that many seconds after \<open>t\<close>, and one that has no
  \<open>expires_in\<close> has no \<open>expires_at\<close>. So the \<open>expires_at\<close> of the outcome is
  a number greater than the snapshot's when the outcome's \<open>expires_in\<close> is a number
  that is not negative, the clock has not gone backwards between \<open>now\<close> and \<open>t\<close>,
  and \<open>t + 1000 * expires_in\<close> is within the range of dates.
\<close>

theorem restore_outcome:
  assumes "now = clock w (reads st)"
    and "t = clock w (Suc (reads st))"
    and "st1 = st\<lparr>reads := Suc (reads st)\<rparr>"
  shows
   "(expires_at data = Some (Num ea) \<and> ea < now \<and> refreshAccessTokens c \<longrightarrow>
       oauth2_restore c w st data =
         oauth2_refreshAccessToken c w st1
           (expires_in data) (refresh_token data) (scope data)) \<and>
    (expires_at data = Some (Num ea) \<and> ea < now \<and> \<not> refreshAccessTokens c \<longrightarrow>
       oauth2_restore c w st data = (Rejected NoReason, st1)) \<and>
    (expires_at data = None \<or> expires_at data = Some NaN \<or>
     expires_at data = Some (Num ea) \<and> now \<le> ea \<longrightarrow>
       oauth2_restore c w st data =
         (if \<not> isEmpty_str (access_token data)
          then (Resolved data,
                oauth2_scheduleAccessTokenRefresh c w st1
                  (expires_in data) (expires_at data) (refresh_token data))
          else (Rejected NoReason, st1))) \<and>
    (expires_at data = Some (Num ea) \<and> ea < now \<and> refreshAccessTokens c \<and>
     fst (oauth2_restore c w st data) = Resolved d \<longrightarrow>
       expires_at d = map_option (millis_after t) (expires_in d)) \<and>
    (expires_at data = Some (Num ea) \<and> ea < now \<and> refreshAccessTokens c \<and>
     fst (oauth2_restore c w st data) = Resolved d \<and>
     expires_in d = Some (Num e) \<and> 0 \<le> e \<and> now \<le> t \<and>
     \<bar>t + e * 1000\<bar> \<le> 8640000000000000 \<longrightarrow>
       expires_at d = Some (Num (t + e * 1000)) \<and> ea < t + e * 1000)"
proof -
  have expired: "fst (oauth2_refreshAccessToken c w st1
          (expires_in data) (refresh_token data) (scope data)) = Resolved d"
    if "expires_at data = Some (Num ea)" and "ea < now" and "refreshAccessTokens c"
      and "fst (oauth2_restore c w st data) = Resolved d"
    using that(4) unfolding assms
    by (simp add: oauth2_restore_def getTime_def that(1,3) that(2) [unfolded assms])
  have at: "expires_at d = map_option (millis_after t) (expires_in d)"
    if "expires_at data = Some (Num ea)" and "ea < now" and "refreshAccessTokens c"
      and "fst (oauth2_restore c w st data) = Resolved d"
    using refresh_resolved_expiry [OF expired [OF that]] by (simp add: assms)
  show ?thesis
  proof (intro conjI impI)
    assume "expires_at data = Some (Num ea) \<and> ea < now \<and> refreshAccessTokens c"
    then show "oauth2_restore c w st data =
        oauth2_refreshAccessToken c w st1
          (expires_in data) (refresh_token data) (scope data)"
      unfolding assms by (simp add: oauth2_restore_def getTime_def)
  next
    assume "expires_at data = Some (Num ea) \<and> ea < now \<and> \<not> refreshAccessTokens c"
    then show "oauth2_restore c w st data = (Rejected NoReason, st1)"
      unfolding assms by (simp add: oauth2_restore_def getTime_def)
  next
    assume "expires_at data = None \<or> expires_at data = Some NaN \<or>
      expires_at data = Some (Num ea) \<and> now \<le> ea"
    then show "oauth2_restore c w st data =
        (if \<not> isEmpty_str (access_token data)
         then (Resolved data,
               oauth2_scheduleAccessTokenRefresh c w st1
                 (expires_in data) (expires_at data) (refresh_token data))
         else (Rejected NoReason, st1))"
      unfolding assms by (auto simp: oauth2_restore_def getTime_def oauth2_validate_def)
  next
    assume "expires_at data = Some (Num ea) \<and> ea < now \<and> refreshAccessTokens c \<and>
      fst (oauth2_restore c w st data) = Resolved d"
    then show "expires_at d = map_option (millis_after t) (expires_in d)"
      by (simp add: at)
  next
    assume a: "expires_at data = Some (Num ea) \<and> ea < now \<and> refreshAccessTokens c \<and>
      fst (oauth2_restore c w st data) = Resolved d \<and>
      expires_in d = Some (Num e) \<and> 0 \<le> e \<and> now \<le> t \<and>
      \<bar>t + e * 1000\<bar> \<le> 8640000000000000"
    then have "expires_at d = map_option (millis_after t) (expires_in d)"
      by (simp add: at)
    with a show "expires_at d = Some (Num (t + e * 1000))"
      by (simp add: millis_after_def date_getTime_def)
    from a show "ea < t + e * 1000"
      by simp
  qed
qed

text \<open>
  A snapshot that expired at 500 is restored at 1000000: with refresh enabled the refresh
  request is sent and the outcome expires at 4600001; with refresh disabled the promise is
  rejected. A snapshot with no \<open>expires_at\<close> is resolved unchanged when it has an
  access token and rejected when it has none. A snapshot with \<open>expires_in = 0\<close>,
  refreshed by a response without \<open>expires_in\<close>, expires at 1000001, the time read
  after the reply; a response with \<open>expires_in = 10000000000000\<close> gives the
  \<open>expires_at\<close> \<^verbatim>\<open>NaN\<close>.
\<close>

theorem restore_outcome_witness:
  "oauth2_restore demo_config (demo_world fresh_token) initial_state expired_data =
     oauth2_refreshAccessToken demo_config (demo_world fresh_token)
       (initial_state\<lparr>reads := Suc 0\<rparr>) (Some (Num 3600)) (Some ''RT1'') None \<and>
   fst (oauth2_restore demo_config (demo_world fresh_token) initial_state expired_data) =
     Resolved (fresh_token\<lparr>expires_at := Some (Num 4600001)\<rparr>) \<and>
   (500 :: int) < 4600001 \<and>
   oauth2_restore (demo_config\<lparr>refreshAccessTokens := False\<rparr>) (demo_world fresh_token)
       initial_state expired_data =
     (Rejected NoReason, initial_state\<lparr>reads := Suc 0\<rparr>) \<and>
   fst (oauth2_restore demo_config (demo_world fresh_token) initial_state fresh_token) =
     Resolved fresh_token \<and>
   fst (oauth2_restore demo_config (demo_world fresh_token) initial_state no_token) =
     Rejected NoReason \<and>
   fst (oauth2_restore demo_config (demo_world bare_token) initial_state expired_data_zero) =
     Resolved (bare_token\<lparr>expires_in := Some (Num 0), expires_at := Some (Num 1000001),
       refresh_token := Some ''RT1''\<rparr>) \<and>
   (500 :: int) < 1000001 \<and>
   fst (oauth2_restore demo_config (demo_world far_token) initial_state expired_data) =
     Resolved (far_token\<lparr>expires_at := Some NaN\<rparr>)"
proof -
  have r: "fst (oauth2_restore demo_config (demo_world fresh_token) initial_state expired_data) =
     Resolved (fresh_token\<lparr>expires_at := Some (Num 4600001)\<rparr>)"
    "fst (oauth2_restore demo_config (demo_world bare_token) initial_state expired_data_zero) =
     Resolved (bare_token\<lparr>expires_in := Some (Num 0), expires_at := Some (Num 1000001),
       refresh_token := Some ''RT1''\<rparr>)"
    "fst (oauth2_restore demo_config (demo_world far_token) initial_state expired_data) =
     Resolved (far_token\<lparr>expires_at := Some NaN\<rparr>)"
    by (simp_all add: oauth2_defs demo_defs Let_def)
  show ?thesis
    using r
      restore_outcome [OF refl refl refl, of expired_data 500 "demo_world fresh_token"
        initial_state demo_config "fresh_token\<lparr>expires_at := Some (Num 4600001)\<rparr>" 3600]
      restore_outcome [OF refl refl refl, of expired_data_zero 500 "demo_world bare_token"
        initial_state demo_config
        "bare_token\<lparr>expires_in := Some (Num 0), expires_at := Some (Num 1000001),
           refresh_token := Some ''RT1''\<rparr>" 0]
      restore_outcome [OF refl refl refl, of expired_data 500 "demo_world far_token"
        initial_state demo_config "far_token\<lparr>expires_at := Some NaN\<rparr>"]
      restore_outcome [OF refl refl refl, of expired_data 500 "demo_world fresh_token"
        initial_state "demo_config\<lparr>refreshAccessTokens := False\<rparr>"]
      restore_outcome [OF refl refl refl, of fresh_token 0 "demo_world fresh_token"
        initial_state demo_config]
      restore_outcome [OF refl refl refl, of no_token 0 "demo_world fresh_token"
        initial_state demo_config]
    by (simp add: demo_defs initial_state_def isEmpty_str_def)
qed

text \<open>
  C2 as stated fails in its last sentence. The snapshot expired at 500 and has no
  \<open>expires_in\<close>; refresh is enabled and the server answers the refresh request with
  \<^verbatim>\<open>{access_token: "AT2", token_type: "bearer"}\<close>. \<^verbatim>\<open>restore\<close> is resolved, and the
  outcome has no \<open>expires_at\<close> at all, so none greater than 500.
\<close>

theorem restore_outcome_counterexample:
  "fst (oauth2_restore demo_config (demo_world bare_token) initial_state
         expired_data_no_expires_in) =
     Resolved \<lparr>access_token = Some ''AT2'', token_type = Some ''bearer'', expires_in = None,
               expires_at = None, refresh_token = Some ''RT1'', scope = None, error = None\<rparr>"
  by (simp add: oauth2_defs demo_defs Let_def)

subsection \<open>invalidate\<close>

lemma revoke_tokens_two:
  "revoke_tokens c w st (the (serverTokenRevocationEndpoint c))
     [(''access_token'', access_token data), (''refresh_token'', refresh_token data)] =
   (revocation_replies c w st data, st\<lparr>sent := sent st @ revocation_requests c data\<rparr>)"
  by (simp add: revocation_replies_def revocation_requests_def revocation_request_def
      oauth2_makeRequest_def Let_def)

lemma promise_all_pending_iff:
  "(promise_all ps = Pending) = (\<not> list_ex is_rejected ps \<and> \<not> list_all is_resolved ps)"
proof (cases "find is_rejected ps")
  case None
  then have "\<not> list_ex is_rejected ps"
    by (simp add: find_None_iff list_ex_iff)
  with None show ?thesis
    by (simp add: promise_all_def)
next
  case (Some p)
  then have "is_rejected p" and "p \<in> set ps"
    by (auto simp: find_Some_iff)
  then have "list_ex is_rejected ps" and "\<exists>r. p = Rejected r"
    by (auto simp: list_ex_iff elim: is_rejected.elims)
  with Some show ?thesis
    by (auto simp: promise_all_def)
qed

lemma settled_cases:
  "list_all is_settled ps \<Longrightarrow> list_ex is_rejected ps \<or> list_all is_resolved ps"
proof (induction ps)
  case Nil
  then show ?case by simp
next
  case (Cons p ps)
  then show ?case by (cases p) auto
qed

text \<open>
  C5 (as amended). \<^verbatim>\<open>invalidate\<close> never rejects. With no revocation endpoint configured
  it is resolved at once, the timer cancelled and no request sent. With an endpoint, the
  requests it sends are exactly one for each of \<open>access_token\<close> and
  \<open>refresh_token\<close> that is not empty, each with its \<^verbatim>\<open>token_type_hint\<close> and the token;
  the promise is resolved exactly when one of these requests has failed or all of them
  have succeeded, hence whenever all of them have settled, whatever their outcomes.
  Whenever the promise is resolved, the timer that \<^verbatim>\<open>_refreshTokenTimeout\<close> named has been
  cancelled and the handle dropped.
\<close>

theorem invalidate_outcome:
  "fst (oauth2_invalidate c w st data) \<noteq> Rejected r \<and>
   (isEmpty_str (serverTokenRevocationEndpoint c) \<longrightarrow>
      oauth2_invalidate c w st data = (Resolved (), cancel_refresh st) \<and>
      sent (snd (oauth2_invalidate c w st data)) = sent st) \<and>
   (\<not> isEmpty_str (serverTokenRevocationEndpoint c) \<longrightarrow>
      sent (snd (oauth2_invalidate c w st data)) = sent st @ revocation_requests c data \<and>
      (fst (oauth2_invalidate c w st data) = Resolved ()) =
        (list_ex is_rejected (revocation_replies c w st data) \<or>
         list_all is_resolved (revocation_replies c w st data)) \<and>
      (list_all is_settled (revocation_replies c w st data) \<longrightarrow>
         fst (oauth2_invalidate c w st data) = Resolved ())) \<and>
   (fst (oauth2_invalidate c w st data) = Resolved () \<longrightarrow>
      timers (snd (oauth2_invalidate c w st data)) =
        cancel (refreshTokenTimeout st) (timers st) \<and>
      refreshTokenTimeout (snd (oauth2_invalidate c w st data)) = None)"
proof -
  have eq: "oauth2_invalidate c w st data =
      (if isEmpty_str (serverTokenRevocationEndpoint c) then (Resolved (), cancel_refresh st)
       else if promise_all (revocation_replies c w st data) = Pending
         then (Pending, st\<lparr>sent := sent st @ revocation_requests c data\<rparr>)
         else (Resolved (),
               cancel_refresh (st\<lparr>sent := sent st @ revocation_requests c data\<rparr>)))"
    by (simp add: oauth2_invalidate_def revoke_tokens_two del: revoke_tokens.simps
        split: promise.splits)
  show ?thesis
    using settled_cases [of "revocation_replies c w st data"]
    by (auto simp: eq promise_all_pending_iff cancel_refresh_def)
qed

text \<open>
  Without a revocation endpoint \<^verbatim>\<open>invalidate\<close> is resolved and nothing is sent. With the
  endpoint \<^verbatim>\<open>/revoke\<close> and both tokens present two requests are sent; the server refuses
  both, and the promise is resolved and the pending timer cancelled all the same.
\<close>

theorem invalidate_outcome_witness:
  "oauth2_invalidate demo_config (demo_world fresh_token) initial_state expired_data =
     (Resolved (), initial_state) \<and>
   sent (snd (oauth2_invalidate revoking_config refusing_world initial_state expired_data)) =
     [\<lparr>url = ''/revoke'',
       form = [(''token_type_hint'', Some ''access_token''), (''token'', Some ''AT1'')],
       headers = [(''Content-Type'', ''application/x-www-form-urlencoded'')],
       http_method = ''POST''\<rparr>,
      \<lparr>url = ''/revoke'',
       form = [(''token_type_hint'', Some ''refresh_token''), (''token'', Some ''RT1'')],
       headers = [(''Content-Type'', ''application/x-www-form-urlencoded'')],
       http_method = ''POST''\<rparr>] \<and>
   fst (oauth2_invalidate revoking_config refusing_world authenticated_state expired_data) =
     Resolved () \<and>
   timers (snd (oauth2_invalidate revoking_config refusing_world authenticated_state
     expired_data)) = []"
  using invalidate_outcome [of demo_config "demo_world fresh_token" initial_state expired_data]
    invalidate_outcome [of revoking_config refusing_world initial_state expired_data]
    invalidate_outcome [of revoking_config refusing_world authenticated_state expired_data]
  by (simp add: demo_defs initial_state_def authenticated_state_eq isEmpty_str_def
      cancel_refresh_def cancel_def revocation_replies_def revocation_requests_def
      revocation_request_def build_request_def)

text \<open>
  C5 as stated fails where it has the promise resolve after all requests have settled.
  Both tokens are present; the server refuses the revocation of the access token and never
  answers the revocation of the refresh token. \<^verbatim>\<open>Promise.all\<close> is rejected by the first
  failure, so \<^verbatim>\<open>invalidate\<close> is resolved while the second request is still pending.
\<close>

theorem invalidate_outcome_counterexample:
  "fst (oauth2_invalidate revoking_config failing_then_silent initial_state expired_data) =
     Resolved () \<and>
   revocation_replies revoking_config failing_then_silent initial_state expired_data =
     [Rejected (ErrorResponse False (Json no_token)), Pending]"
  by (simp add: oauth2_defs demo_defs revocation_replies_def revocation_requests_def
      revocation_request_def Let_def)

section \<open>Properties of the session\<close>

lemmas session_defs =
  session_authenticate_def session_invalidate_def session_restore_def session_setup_def
  session_clear_def session_clearWithContent_def session_updateStore_def store_data_def
  session_bindToAuthenticatorEvents_def session_lookupAuthenticator_def
  session_onStoreSessionDataUpdated_def session_onSessionDataUpdated_def
  session_onSessionDataInvalidated_def session_setUnknownProperty_def from_callback_def
  then_reject_def set_authenticated_def set_unauthenticated_def authenticator_of_def
  delete_authenticator_def get_property_def object_assign_def triggers_def succeeded_def

lemmas session_demo_defs =
  accepting_def rejecting_def demo_env_def full_store_env_def notified_def signed_in_def
  init_def stranger_def silent_def slow_env_def

lemma store_data_listeners [simp]: "store_data (s\<lparr>listeners := l\<rparr>) = store_data s"
  by (simp add: store_data_def Let_def)

lemma store_data_unauthenticated [simp]:
  "store_data (set_unauthenticated s) = (content s)\<lparr>authenticated := Some []\<rparr>"
  by (simp add: store_data_def set_unauthenticated_def Let_def)

lemmas payload_defs = authenticator_of_def delete_authenticator_def get_property_def

subsection \<open>What the methods come to\<close>

text \<open>
  \<^verbatim>\<open>_setup\<close> by the answer of the store, when the owner knows the authenticator and when
  it does not; \<^verbatim>\<open>_clear\<close> by the answer of the store.
\<close>

lemma setup_known:
  assumes "owner_lookup e name = Some a"
  shows "session_setup e s name ac trigger =
     (let s1 = set_authenticated s name ac;
          s2 = s1\<lparr>listeners :=
                  List.insert (name, SessionDataInvalidated)
                    (List.insert (name, SessionDataUpdated) (listeners s)),
                  content := store_data s1\<rparr>
      in (case store_persist e (store_data s1) of
            Resolved _ \<Rightarrow>
              \<lparr>after = s2,
               effects = Persist (store_data s1) #
                 (if trigger \<and> \<not> isAuthenticated s then [Trigger AuthenticationSucceeded] else []),
               completion = Promised (Resolved ())\<rparr>
          | Rejected _ \<Rightarrow>
              \<lparr>after = set_unauthenticated s2, effects = [Persist (store_data s1)],
               completion = Promised (Resolved ())\<rparr>
          | Pending \<Rightarrow>
              \<lparr>after = s2, effects = [Persist (store_data s1)],
               completion = Promised Pending\<rparr>))"
  using assms
  by (simp add: session_setup_def session_bindToAuthenticatorEvents_def
      session_lookupAuthenticator_def session_updateStore_def Let_def set_authenticated_def
      split: promise.splits)

lemma setup_unknown:
  assumes "owner_lookup e name = None"
  shows "session_setup e s name ac trigger =
     \<lparr>after = set_authenticated s name ac, effects = [],
      completion = Thrown (NoAuthenticatorFound name)\<rparr>"
  using assms
  by (simp add: session_setup_def session_bindToAuthenticatorEvents_def
      session_lookupAuthenticator_def Let_def set_authenticated_def)

lemma clear_eq:
  "session_clear e s trigger =
     (let d = (content s)\<lparr>authenticated := Some []\<rparr>;
          s2 = set_unauthenticated s
      in (case store_persist e d of
            Resolved _ \<Rightarrow>
              \<lparr>after = s2,
               effects = Persist d #
                 (if trigger \<and> isAuthenticated s then [Trigger InvalidationSucceeded] else []),
               completion = Promised (Resolved ())\<rparr>
          | Rejected err \<Rightarrow>
              \<lparr>after = s2, effects = [Persist d], completion = Promised (Rejected (Value err))\<rparr>
          | Pending \<Rightarrow>
              \<lparr>after = s2, effects = [Persist d], completion = Promised Pending\<rparr>))"
  by (simp add: session_clear_def session_updateStore_def Let_def set_unauthenticated_def
      store_data_def split: promise.splits)

lemma from_callback_simps [simp]:
  "after (from_callback r) = after r" "effects (from_callback r) = effects r"
  by (simp_all add: from_callback_def)

lemma then_reject_simps [simp]:
  "after (then_reject x r) = after r" "effects (then_reject x r) = effects r"
  by (simp_all add: then_reject_def)

subsection \<open>_setup and the store\<close>

text \<open>
  C4. \<open>d\<close> is the data \<^verbatim>\<open>_setup\<close> hands to the store: the content with the new
  session data and the name of the authenticator in it. When the authenticator is known
  and the store rejects \<open>d\<close>, the session is back in the unauthenticated state:
  \<open>isAuthenticated\<close> false, \<open>authenticator\<close> null, \<open>content.authenticated\<close>
  empty, and no event is triggered. When the store accepts \<open>d\<close>, the session is
  authenticated, its content is exactly the \<open>d\<close> that was persisted, the event comes
  after the persist, and the promise is resolved. Whenever the promise of \<^verbatim>\<open>_setup\<close> is
  resolved, the first thing that happened was the persist of \<open>d\<close>.
\<close>

theorem setup_persists_or_rolls_back:
  assumes "r = session_setup e s name ac trigger"
    and "d = store_data (set_authenticated s name ac)"
  shows
   "(owner_lookup e name = Some a \<and> store_persist e d = Rejected err \<longrightarrow>
       isAuthenticated (after r) = False \<and> authenticator (after r) = JNull \<and>
       authenticated (content (after r)) = Some [] \<and>
       effects r = [Persist d]) \<and>
    (owner_lookup e name = Some a \<and> store_persist e d = Resolved () \<longrightarrow>
       isAuthenticated (after r) \<and> authenticator (after r) = name \<and>
       content (after r) = d \<and>
       effects r = Persist d #
         (if trigger \<and> \<not> isAuthenticated s then [Trigger AuthenticationSucceeded] else []) \<and>
       completion r = Promised (Resolved ())) \<and>
    (completion r = Promised (Resolved ()) \<longrightarrow> take 1 (effects r) = [Persist d])"
proof (cases "owner_lookup e name")
  case None
  then show ?thesis
    using assms by (simp add: setup_unknown)
next
  case (Some b)
  then show ?thesis
    using assms
    by (cases "store_persist e d")
      (simp_all add: setup_known Let_def set_unauthenticated_def set_authenticated_def)
qed


text \<open>
  With a store that refuses every write, \<^verbatim>\<open>_setup\<close> leaves the initial session
  unauthenticated; with a store that accepts, the data is persisted with the name of the
  authenticator in it, then \<^verbatim>\<open>authenticationSucceeded\<close> is triggered.
\<close>

theorem setup_persists_or_rolls_back_witness:
  "isAuthenticated (after (session_setup full_store_env init (JStr ''authenticator:x'')
     (Some [(''access_token'', JStr ''AT1'')]) True)) = False \<and>
   authenticator (after (session_setup full_store_env init (JStr ''authenticator:x'')
     (Some [(''access_token'', JStr ''AT1'')]) True)) = JNull \<and>
   authenticated (content (after (session_setup full_store_env init (JStr ''authenticator:x'')
     (Some [(''access_token'', JStr ''AT1'')]) True))) = Some [] \<and>
   effects (session_setup demo_env init (JStr ''authenticator:x'')
     (Some [(''access_token'', JStr ''AT1'')]) True) =
     [Persist \<lparr>authenticated = Some [(''authenticator'', JStr ''authenticator:x''),
                                       (''access_token'', JStr ''AT1'')],
               properties = []\<rparr>,
      Trigger AuthenticationSucceeded] \<and>
   content (after (session_setup demo_env init (JStr ''authenticator:x'')
     (Some [(''access_token'', JStr ''AT1'')]) True)) =
     \<lparr>authenticated = Some [(''authenticator'', JStr ''authenticator:x''),
                             (''access_token'', JStr ''AT1'')],
      properties = []\<rparr>"
  using setup_persists_or_rolls_back [OF refl refl, where e = full_store_env and s = init
      and name = "JStr ''authenticator:x''" and ac = "Some [(''access_token'', JStr ''AT1'')]"
      and trigger = True and a = accepting and err = "JStr ''quota exceeded''"]
    setup_persists_or_rolls_back [OF refl refl, where e = demo_env and s = init
      and name = "JStr ''authenticator:x''" and ac = "Some [(''access_token'', JStr ''AT1'')]"
      and trigger = True and a = accepting]
  by (simp add: session_demo_defs store_data_def set_authenticated_def object_assign_def
      Let_def)

subsection \<open>authenticate when the authenticator rejects\<close>

text \<open>
  C7. When the authenticator is known and its \<^verbatim>\<open>authenticate\<close> rejects with \<open>err\<close>,
  the session is cleared (\<open>isAuthenticated\<close> false, \<open>authenticator\<close> null,
  \<open>content.authenticated\<close> empty), \<^verbatim>\<open>_busy\<close> is false, and the one thing done to the
  outside is the persist of the cleared content. Once the store has answered that persist,
  whether it accepted or refused, the returned promise is rejected with \<open>err\<close> itself;
  until then it is pending, with \<^verbatim>\<open>_busy\<close> already false.
\<close>

theorem authenticate_rejected:
  assumes "r = session_authenticate e s name args"
    and "\<not> isEmpty name"
    and "owner_lookup e name = Some a"
    and "do_authenticate a args = Rejected err"
  shows
   "isAuthenticated (after r) = False \<and> authenticator (after r) = JNull \<and>
    authenticated (content (after r)) = Some [] \<and>
    busy (after r) = False \<and>
    effects r = [Persist (content (after r))] \<and>
    completion r =
      (if is_settled (store_persist e (content (after r)))
       then Promised (Rejected (Value err)) else Promised Pending)"
  using assms
  by (cases "store_persist e ((content s)\<lparr>authenticated := Some []\<rparr>)")
    (simp_all add: session_authenticate_def session_lookupAuthenticator_def clear_eq Let_def
      then_reject_def set_unauthenticated_def)

text \<open>
  The authenticator \<^verbatim>\<open>authenticator:no\<close> rejects with \<^verbatim>\<open>invalid_grant\<close>: a session that
  was signed in is cleared, the cleared content is persisted, and the promise is rejected
  with \<^verbatim>\<open>invalid_grant\<close>, also when the store refuses the write.
\<close>

theorem authenticate_rejected_witness:
  "after (session_authenticate demo_env signed_in (JStr ''authenticator:no'') []) =
     signed_in\<lparr>isAuthenticated := False, authenticator := JNull, content := signed_out\<rparr> \<and>
   effects (session_authenticate demo_env signed_in (JStr ''authenticator:no'') []) =
     [Persist signed_out] \<and>
   completion (session_authenticate demo_env signed_in (JStr ''authenticator:no'') []) =
     Promised (Rejected (Value (JStr ''invalid_grant''))) \<and>
   completion (session_authenticate full_store_env signed_in (JStr ''authenticator:no'') []) =
     Promised (Rejected (Value (JStr ''invalid_grant'')))"
proof -
  have a: "after (session_authenticate e signed_in (JStr ''authenticator:no'') []) =
     signed_in\<lparr>isAuthenticated := False, authenticator := JNull, content := signed_out\<rparr>"
    if "owner_lookup e (JStr ''authenticator:no'') = Some rejecting" for e
    using that
    by (simp add: session_authenticate_def session_lookupAuthenticator_def clear_eq Let_def
        rejecting_def signed_in_def signed_out_def set_unauthenticated_def
        split: promise.splits)
  have l: "owner_lookup demo_env (JStr ''authenticator:no'') = Some rejecting"
    "owner_lookup full_store_env (JStr ''authenticator:no'') = Some rejecting"
    "store_persist demo_env = (\<lambda>c. Resolved ())"
    "store_persist full_store_env = (\<lambda>c. Rejected (JStr ''quota exceeded''))"
    "do_authenticate rejecting = (\<lambda>args. Rejected (JStr ''invalid_grant''))"
    by (simp_all add: demo_env_def full_store_env_def rejecting_def)
  have "effects (session_authenticate demo_env signed_in (JStr ''authenticator:no'') []) =
     [Persist signed_out]"
    and "completion (session_authenticate demo_env signed_in (JStr ''authenticator:no'') []) =
     Promised (Rejected (Value (JStr ''invalid_grant'')))"
    using authenticate_rejected [OF refl, where e = demo_env and s = signed_in
        and name = "JStr ''authenticator:no''" and args = "[]" and a = rejecting
        and err = "JStr ''invalid_grant''"]
    by (auto simp add: l a)
  moreover have
    "completion (session_authenticate full_store_env signed_in (JStr ''authenticator:no'') []) =
     Promised (Rejected (Value (JStr ''invalid_grant'')))"
    using authenticate_rejected [OF refl, where e = full_store_env and s = signed_in
        and name = "JStr ''authenticator:no''" and args = "[]" and a = rejecting
        and err = "JStr ''invalid_grant''"]
    by (auto simp add: l a)
  ultimately show ?thesis
    by (simp add: a l)
qed

subsection \<open>invalidate when not authenticated\<close>

lemma clear_attemptedTransition:
  "attemptedTransition (after (session_clear e s trigger)) = attemptedTransition s"
  by (simp add: clear_eq Let_def set_unauthenticated_def split: promise.splits)

text \<open>
  C9 (as amended). When the session is not authenticated, \<^verbatim>\<open>invalidate\<close> returns a
  resolved promise and does nothing to the outside: no authenticator is looked up, nothing
  is persisted, no event is triggered, and \<open>isAuthenticated\<close>,
  \<open>authenticator\<close>, \<open>content\<close> and the bindings stay as they are. It is not
  without effect on the session: \<open>attemptedTransition\<close> is set to null and
  \<^verbatim>\<open>_busy\<close> to false, also when an operation still in flight had set \<^verbatim>\<open>_busy\<close> to
  true. After every call of \<^verbatim>\<open>invalidate\<close>, authenticated or not,
  \<open>attemptedTransition\<close> is null.
\<close>

theorem invalidate_unauthenticated:
  "(\<not> isAuthenticated s \<longrightarrow>
      session_invalidate e s args =
        \<lparr>after = s\<lparr>busy := False, attemptedTransition := None\<rparr>, effects = [],
         completion = Promised (Resolved ())\<rparr>) \<and>
   attemptedTransition (after (session_invalidate e s args)) = None"
  by (simp add: session_invalidate_def session_lookupAuthenticator_def Let_def
      from_callback_def clear_attemptedTransition split: option.splits promise.splits)

text \<open>
  An idle session with a pending navigation, a session whose \<^verbatim>\<open>authenticate\<close> is still
  in flight, and an authenticated session.
\<close>

theorem invalidate_unauthenticated_witness:
  "session_invalidate demo_env (init\<lparr>attemptedTransition := Some 7\<rparr>) [] =
     \<lparr>after = init, effects = [], completion = Promised (Resolved ())\<rparr> \<and>
   session_invalidate demo_env (init\<lparr>busy := True\<rparr>) [] =
     \<lparr>after = init, effects = [], completion = Promised (Resolved ())\<rparr> \<and>
   attemptedTransition (after (session_invalidate demo_env signed_in [])) = None"
  using invalidate_unauthenticated [of "init\<lparr>attemptedTransition := Some 7\<rparr>" demo_env "[]"]
    invalidate_unauthenticated [of "init\<lparr>busy := True\<rparr>" demo_env "[]"]
    invalidate_unauthenticated [of signed_in demo_env "[]"]
  by (simp add: init_def)

text \<open>
  C9 as stated fails: the call is not a no-op. While an \<^verbatim>\<open>authenticate\<close> is in flight
  the session is busy and not authenticated, and a notification of the store is dropped.
  \<^verbatim>\<open>invalidate\<close>, called then, leaves a session that is not busy, and the same
  notification is acted on: the session becomes authenticated while the
  \<^verbatim>\<open>authenticate\<close> is still in flight.
\<close>

theorem invalidate_unauthenticated_counterexample:
  "after (session_authenticate slow_env init (JStr ''authenticator:x'') []) =
     init\<lparr>busy := True\<rparr> \<and>
   after (session_invalidate demo_env (init\<lparr>busy := True\<rparr>) []) = init \<and>
   init \<noteq> init\<lparr>busy := True\<rparr> \<and>
   session_onStoreSessionDataUpdated demo_env (init\<lparr>busy := True\<rparr>) notified =
     \<lparr>after = init\<lparr>busy := True\<rparr>, effects = [], completion = Returned\<rparr> \<and>
   isAuthenticated (after (session_onStoreSessionDataUpdated demo_env
     (after (session_invalidate demo_env (init\<lparr>busy := True\<rparr>) [])) notified)) = True \<and>
   triggers (effects (session_onStoreSessionDataUpdated demo_env
     (after (session_invalidate demo_env (init\<lparr>busy := True\<rparr>) [])) notified)) =
     [AuthenticationSucceeded]"
  by (simp add: session_defs session_demo_defs Let_def)


subsection \<open>What is persisted\<close>

lemma map_of_object_assign:
  "distinct (map fst source) \<Longrightarrow>
   map_of (object_assign target source) = map_of target ++ map_of source"
  unfolding object_assign_def
proof (induction source arbitrary: target)
  case Nil
  show ?case by simp
next
  case (Cons kv source)
  obtain k v where kv: "kv = (k, v)" by (cases kv)
  from Cons.prems kv have k: "map_of source k = None" and d: "distinct (map fst source)"
    by (auto simp: map_of_eq_None_iff)
  have "map_of (fold (\<lambda>(k, v). AList.update k v) source (AList.update k v target)) =
        map_of (AList.update k v target) ++ map_of source"
    by (rule Cons.IH [OF d])
  also have "\<dots> = map_of target ++ map_of ((k, v) # source)"
    using k by (auto simp: update_conv' map_add_def split: option.splits)
  finally show ?case
    by (simp add: kv del: map_add_upd map_of.simps)
qed

text \<open>
  C10. \<^verbatim>\<open>_updateStore\<close> persists the content of the session as it is after the call, and
  leaves the keys other than \<^verbatim>\<open>authenticated\<close> alone. When the session has an
  authenticator, the persisted \<^verbatim>\<open>authenticated\<close> is the object \<open>d1\<close>: the name of
  the authenticator under the key \<^verbatim>\<open>authenticator\<close>, overwritten by the keys the
  session data \<open>d\<close> already had. So \<open>d1\<close> always has the key
  \<^verbatim>\<open>authenticator\<close>; it holds the name of the bound authenticator unless \<open>d\<close> had
  that key itself. When the session has no authenticator the content is persisted as it
  is. (\<open>d\<close> is an object: its keys are distinct.)
\<close>

theorem update_store_writes_authenticator:
  assumes "r = session_updateStore e s"
    and "d = (case authenticated (content s) of None \<Rightarrow> [] | Some x \<Rightarrow> x)"
    and "d1 = object_assign [(''authenticator'', authenticator s)] d"
    and "distinct (map fst d)"
  shows
   "snd r = ([Persist (content (fst r))], store_persist e (content (fst r))) \<and>
    properties (content (fst r)) = properties (content s) \<and>
    (\<not> isEmpty (authenticator s) \<longrightarrow>
       authenticated (content (fst r)) = Some d1 \<and>
       map_of d1 = [''authenticator'' \<mapsto> authenticator s] ++ map_of d \<and>
       get_property d1 ''authenticator'' =
         (case map_of d ''authenticator'' of None \<Rightarrow> authenticator s | Some v \<Rightarrow> v)) \<and>
    (isEmpty (authenticator s) \<longrightarrow> content (fst r) = content s)"
proof -
  have m: "map_of d1 = [''authenticator'' \<mapsto> authenticator s] ++ map_of d"
    using map_of_object_assign [OF assms(4), of "[(''authenticator'', authenticator s)]"]
    by (simp add: assms(3))
  have c: "content (fst r) = store_data s" and
    e: "snd r = ([Persist (store_data s)], store_persist e (store_data s))"
    using assms(1) by (simp_all add: session_updateStore_def Let_def)
  have a: "authenticated (store_data s) = Some d1"
    if "\<not> isEmpty (authenticator s)"
    using that assms(2,3) by (simp add: store_data_def Let_def)
  have g: "get_property d1 ''authenticator'' =
      (case map_of d ''authenticator'' of None \<Rightarrow> authenticator s | Some v \<Rightarrow> v)"
    by (simp add: get_property_def m map_add_def split: option.splits)
  show ?thesis
    using a m g by (simp add: c e) (simp add: store_data_def Let_def)
qed

text \<open>
  The name \<^verbatim>\<open>authenticator:x\<close> is written in front of the session data; session data
  with an \<^verbatim>\<open>authenticator\<close> key of its own keeps its value; the initial session, which
  has no authenticator, persists its content unchanged.
\<close>

theorem update_store_writes_authenticator_witness:
  "content (fst (session_updateStore demo_env fresh)) =
     \<lparr>authenticated = Some [(''authenticator'', JStr ''authenticator:x''),
                             (''access_token'', JStr ''AT1'')],
      properties = []\<rparr> \<and>
   get_property
     [(''authenticator'', JStr ''authenticator:other''), (''access_token'', JStr ''AT1'')]
     ''authenticator'' = JStr ''authenticator:other'' \<and>
   authenticated (content (fst (session_updateStore demo_env overridden))) =
     Some [(''authenticator'', JStr ''authenticator:other''), (''access_token'', JStr ''AT1'')] \<and>
   content (fst (session_updateStore demo_env init)) = content init"
proof -
  have "authenticated (content (fst (session_updateStore demo_env fresh))) =
      Some [(''authenticator'', JStr ''authenticator:x''), (''access_token'', JStr ''AT1'')]"
    and "properties (content (fst (session_updateStore demo_env fresh))) = []"
    using update_store_writes_authenticator [OF refl refl refl, of fresh demo_env]
    by (auto simp add: fresh_def signed_in_def object_assign_def)
  then have "content (fst (session_updateStore demo_env fresh)) =
     \<lparr>authenticated = Some [(''authenticator'', JStr ''authenticator:x''),
                             (''access_token'', JStr ''AT1'')],
      properties = []\<rparr>"
    by (cases "content (fst (session_updateStore demo_env fresh))") simp
  moreover have
    "authenticated (content (fst (session_updateStore demo_env overridden))) =
       Some [(''authenticator'', JStr ''authenticator:other''),
             (''access_token'', JStr ''AT1'')]"
    and "get_property
       [(''authenticator'', JStr ''authenticator:other''), (''access_token'', JStr ''AT1'')]
       ''authenticator'' = JStr ''authenticator:other''"
    using update_store_writes_authenticator [OF refl refl refl, of overridden demo_env]
    by (auto simp add: overridden_def signed_in_def object_assign_def)
  moreover have "content (fst (session_updateStore demo_env init)) = content init"
    using update_store_writes_authenticator [OF refl refl refl, of init demo_env]
    by (auto simp add: init_def)
  ultimately show ?thesis
    by simp
qed


subsection \<open>A notification of the store\<close>

text \<open>
  C3 (as amended). While \<^verbatim>\<open>_busy\<close> is true a \<^verbatim>\<open>sessionDataUpdated\<close> of the store is
  dropped: nothing changes and nothing is done. While it is false and the payload names an
  authenticator: when the owner does not know the name, the handler throws the assertion
  of \<^verbatim>\<open>_lookupAuthenticator\<close>, does nothing else and leaves \<^verbatim>\<open>_busy\<close> true; when the
  owner knows it, its \<^verbatim>\<open>restore\<close> is called with the payload's session data without
  the name. If that is never settled nothing else happens and \<^verbatim>\<open>_busy\<close> stays true. If
  it resolves, the handler is \<^verbatim>\<open>_setup\<close> with trigger true on the session whose
  content is the payload, and \<^verbatim>\<open>authenticationSucceeded\<close> is triggered exactly when
  the session was not authenticated before and the store accepts the write. If
  \<^verbatim>\<open>restore\<close> rejects, or the payload names no authenticator, the handler is
  \<^verbatim>\<open>_clearWithContent\<close> with trigger true, and \<^verbatim>\<open>invalidationSucceeded\<close> is
  triggered exactly when the session was authenticated before and the store accepts the
  write.
\<close>

theorem store_notification:
  assumes "r = session_onStoreSessionDataUpdated e s c"
    and "s1 = s\<lparr>content := delete_authenticator c, busy := False\<rparr>"
  shows
   "(busy s \<longrightarrow> r = \<lparr>after = s, effects = [], completion = Returned\<rparr>) \<and>
    (\<not> busy s \<and> truthy (authenticator_of c) \<and>
     owner_lookup e (authenticator_of c) = None \<longrightarrow>
       r = \<lparr>after = s\<lparr>busy := True\<rparr>, effects = [],
            completion = Thrown (NoAuthenticatorFound (authenticator_of c))\<rparr>) \<and>
    (\<not> busy s \<and> truthy (authenticator_of c) \<and>
     owner_lookup e (authenticator_of c) = Some a \<and>
     do_restore a (authenticated (delete_authenticator c)) = Pending \<longrightarrow>
       r = \<lparr>after = s\<lparr>busy := True\<rparr>, effects = [], completion = Promised Pending\<rparr>) \<and>
    (\<not> busy s \<and> truthy (authenticator_of c) \<and>
     owner_lookup e (authenticator_of c) = Some a \<and>
     do_restore a (authenticated (delete_authenticator c)) = Resolved ac \<longrightarrow>
       r = session_setup e s1 (authenticator_of c) ac True \<and>
       triggers (effects r) =
         (if \<not> isAuthenticated s \<and>
             store_persist e (store_data (set_authenticated s1 (authenticator_of c) ac)) =
               Resolved ()
          then [AuthenticationSucceeded] else [])) \<and>
    (\<not> busy s \<and> truthy (authenticator_of c) \<and>
     owner_lookup e (authenticator_of c) = Some a \<and>
     do_restore a (authenticated (delete_authenticator c)) = Rejected err \<longrightarrow>
       r = session_clearWithContent e (s\<lparr>busy := False\<rparr>) (delete_authenticator c) True \<and>
       triggers (effects r) =
         (if isAuthenticated s \<and>
             store_persist e ((delete_authenticator c)\<lparr>authenticated := Some []\<rparr>) = Resolved ()
          then [InvalidationSucceeded] else [])) \<and>
    (\<not> busy s \<and> \<not> truthy (authenticator_of c) \<longrightarrow>
       r = session_clearWithContent e (s\<lparr>busy := False\<rparr>) c True \<and>
       triggers (effects r) =
         (if isAuthenticated s \<and> store_persist e (c\<lparr>authenticated := Some []\<rparr>) = Resolved ()
          then [InvalidationSucceeded] else []))"
proof (intro conjI impI)
  assume "\<not> busy s \<and> truthy (authenticator_of c) \<and>
     owner_lookup e (authenticator_of c) = None"
  then show "r = \<lparr>after = s\<lparr>busy := True\<rparr>, effects = [],
            completion = Thrown (NoAuthenticatorFound (authenticator_of c))\<rparr>"
    by (simp add: assms session_onStoreSessionDataUpdated_def
        session_lookupAuthenticator_def Let_def)
next
  assume "\<not> busy s \<and> truthy (authenticator_of c) \<and>
     owner_lookup e (authenticator_of c) = Some a \<and>
     do_restore a (authenticated (delete_authenticator c)) = Pending"
  then show "r = \<lparr>after = s\<lparr>busy := True\<rparr>, effects = [], completion = Promised Pending\<rparr>"
    by (simp add: assms session_onStoreSessionDataUpdated_def
        session_lookupAuthenticator_def Let_def)
next
  assume "busy s"
  then show "r = \<lparr>after = s, effects = [], completion = Returned\<rparr>"
    by (simp add: assms(1) session_onStoreSessionDataUpdated_def)
next
  assume h: "\<not> busy s \<and> truthy (authenticator_of c) \<and>
     owner_lookup e (authenticator_of c) = Some a \<and>
     do_restore a (authenticated (delete_authenticator c)) = Resolved ac"
  then show eq: "r = session_setup e s1 (authenticator_of c) ac True"
    by (simp add: assms session_onStoreSessionDataUpdated_def
        session_lookupAuthenticator_def Let_def)
  from h have l: "owner_lookup e (authenticator_of c) = Some a"
    by simp
  show "triggers (effects r) =
         (if \<not> isAuthenticated s \<and>
             store_persist e (store_data (set_authenticated s1 (authenticator_of c) ac)) =
               Resolved ()
          then [AuthenticationSucceeded] else [])"
    by (cases "store_persist e (store_data (set_authenticated s1 (authenticator_of c) ac))")
      (simp_all add: eq setup_known [OF l] Let_def triggers_def assms(2))
next
  assume h: "\<not> busy s \<and> truthy (authenticator_of c) \<and>
     owner_lookup e (authenticator_of c) = Some a \<and>
     do_restore a (authenticated (delete_authenticator c)) = Rejected err"
  then show eq: "r = session_clearWithContent e (s\<lparr>busy := False\<rparr>) (delete_authenticator c) True"
    by (simp add: assms session_onStoreSessionDataUpdated_def
        session_lookupAuthenticator_def Let_def)
  show "triggers (effects r) =
         (if isAuthenticated s \<and>
             store_persist e ((delete_authenticator c)\<lparr>authenticated := Some []\<rparr>) = Resolved ()
          then [InvalidationSucceeded] else [])"
    by (cases "store_persist e ((delete_authenticator c)\<lparr>authenticated := Some []\<rparr>)")
      (simp_all add: eq session_clearWithContent_def clear_eq Let_def triggers_def)
next
  assume h: "\<not> busy s \<and> \<not> truthy (authenticator_of c)"
  then show eq: "r = session_clearWithContent e (s\<lparr>busy := False\<rparr>) c True"
    by (simp add: assms session_onStoreSessionDataUpdated_def Let_def)
  show "triggers (effects r) =
         (if isAuthenticated s \<and> store_persist e (c\<lparr>authenticated := Some []\<rparr>) = Resolved ()
          then [InvalidationSucceeded] else [])"
    by (cases "store_persist e (c\<lparr>authenticated := Some []\<rparr>)")
      (simp_all add: eq session_clearWithContent_def clear_eq Let_def triggers_def)
qed

text \<open>
  A busy session drops the notification. An unauthenticated session becomes authenticated
  and triggers \<^verbatim>\<open>authenticationSucceeded\<close>. An authenticated session is cleared, with
  \<^verbatim>\<open>invalidationSucceeded\<close>, when the named authenticator rejects and when the payload
  names none. A payload that names \<^verbatim>\<open>authenticator:gone\<close>, which the owner does not
  have, makes the handler throw and leaves the session busy; so does, without the throw,
  an authenticator whose \<^verbatim>\<open>restore\<close> is never settled.
\<close>

theorem store_notification_witness:
  "session_onStoreSessionDataUpdated demo_env (signed_in\<lparr>busy := True\<rparr>) notified =
     \<lparr>after = signed_in\<lparr>busy := True\<rparr>, effects = [], completion = Returned\<rparr> \<and>
   session_onStoreSessionDataUpdated demo_env init notified =
     session_setup demo_env
       (init\<lparr>content := \<lparr>authenticated = Some [(''access_token'', JStr ''AT2'')],
                           properties = []\<rparr>\<rparr>)
       (JStr ''authenticator:x'') (Some [(''access_token'', JStr ''AT2'')]) True \<and>
   triggers (effects (session_onStoreSessionDataUpdated demo_env init notified)) =
     [AuthenticationSucceeded] \<and>
   triggers (effects (session_onStoreSessionDataUpdated demo_env signed_in refused)) =
     [InvalidationSucceeded] \<and>
   triggers (effects (session_onStoreSessionDataUpdated demo_env signed_in signed_out)) =
     [InvalidationSucceeded] \<and>
   session_onStoreSessionDataUpdated demo_env signed_in stranger =
     \<lparr>after = signed_in\<lparr>busy := True\<rparr>, effects = [],
      completion = Thrown (NoAuthenticatorFound (JStr ''authenticator:gone''))\<rparr> \<and>
   session_onStoreSessionDataUpdated slow_env signed_in notified =
     \<lparr>after = signed_in\<lparr>busy := True\<rparr>, effects = [], completion = Promised Pending\<rparr>"
proof -
  have n: "authenticator_of notified = JStr ''authenticator:x''"
    "delete_authenticator notified =
       \<lparr>authenticated = Some [(''access_token'', JStr ''AT2'')], properties = []\<rparr>"
    "authenticator_of refused = JStr ''authenticator:no''"
    "authenticator_of signed_out = JUndefined"
    "authenticator_of stranger = JStr ''authenticator:gone''"
    by (simp_all add: payload_defs notified_def refused_def signed_out_def stranger_def)
  have l: "owner_lookup demo_env (JStr ''authenticator:x'') = Some accepting"
    "owner_lookup demo_env (JStr ''authenticator:no'') = Some rejecting"
    "store_persist demo_env = (\<lambda>c. Resolved ())"
    "do_restore accepting = Resolved" "do_restore rejecting = (\<lambda>d. Rejected JUndefined)"
    "owner_lookup demo_env (JStr ''authenticator:gone'') = None"
    "owner_lookup slow_env (JStr ''authenticator:x'') = Some silent"
    "do_restore silent = (\<lambda>d. Pending)"
    by (simp_all add: demo_env_def slow_env_def accepting_def rejecting_def silent_def)
  have i: "\<not> busy init" "\<not> isAuthenticated init" "busy init = False"
    "\<not> busy signed_in" "isAuthenticated signed_in"
    by (simp_all add: init_def signed_in_def)
  have "session_onStoreSessionDataUpdated demo_env (signed_in\<lparr>busy := True\<rparr>) notified =
     \<lparr>after = signed_in\<lparr>busy := True\<rparr>, effects = [], completion = Returned\<rparr>"
    using store_notification [OF refl refl, where e = demo_env
        and s = "signed_in\<lparr>busy := True\<rparr>" and c = notified]
    by simp
  moreover have "session_onStoreSessionDataUpdated demo_env init notified =
     session_setup demo_env
       (init\<lparr>content := \<lparr>authenticated = Some [(''access_token'', JStr ''AT2'')],
                           properties = []\<rparr>\<rparr>)
       (JStr ''authenticator:x'') (Some [(''access_token'', JStr ''AT2'')]) True"
    and "triggers (effects (session_onStoreSessionDataUpdated demo_env init notified)) =
     [AuthenticationSucceeded]"
    using store_notification [OF refl refl, where e = demo_env and s = init and c = notified
        and a = accepting and ac = "Some [(''access_token'', JStr ''AT2'')]"]
    by (auto simp add: n l i init_def)
  moreover have
    "triggers (effects (session_onStoreSessionDataUpdated demo_env signed_in refused)) =
     [InvalidationSucceeded]"
    using store_notification [OF refl refl, where e = demo_env and s = signed_in
        and c = refused and a = rejecting and err = JUndefined]
    by (auto simp add: n l i)
  moreover have
    "triggers (effects (session_onStoreSessionDataUpdated demo_env signed_in signed_out)) =
     [InvalidationSucceeded]"
    using store_notification [OF refl refl, where e = demo_env and s = signed_in
        and c = signed_out]
    by (auto simp add: n l i)
  moreover have "session_onStoreSessionDataUpdated demo_env signed_in stranger =
     \<lparr>after = signed_in\<lparr>busy := True\<rparr>, effects = [],
      completion = Thrown (NoAuthenticatorFound (JStr ''authenticator:gone''))\<rparr>"
    using store_notification [OF refl refl, where e = demo_env and s = signed_in
        and c = stranger]
    by (auto simp add: n l i)
  moreover have "session_onStoreSessionDataUpdated slow_env signed_in notified =
     \<lparr>after = signed_in\<lparr>busy := True\<rparr>, effects = [], completion = Promised Pending\<rparr>"
    using store_notification [OF refl refl, where e = slow_env and s = signed_in
        and c = notified and a = silent]
    by (auto simp add: n l i)
  ultimately show ?thesis
    by simp
qed

text \<open>
  C3 as stated fails. The session is neither busy nor authenticated, the payload names
  \<^verbatim>\<open>authenticator:x\<close> and its \<^verbatim>\<open>restore\<close> resolves, but the store refuses the write
  of \<^verbatim>\<open>_setup\<close>: no \<^verbatim>\<open>authenticationSucceeded\<close> is triggered, and the session is rolled
  back to unauthenticated with an empty \<open>content.authenticated\<close>.
\<close>

theorem store_notification_counterexample:
  "\<not> busy init \<and> \<not> isAuthenticated init \<and>
   owner_lookup full_store_env (authenticator_of notified) = Some accepting \<and>
   do_restore accepting (authenticated (delete_authenticator notified)) =
     Resolved (Some [(''access_token'', JStr ''AT2'')]) \<and>
   triggers (effects (session_onStoreSessionDataUpdated full_store_env init notified)) = [] \<and>
   isAuthenticated (after (session_onStoreSessionDataUpdated full_store_env init notified)) =
     False \<and>
   authenticated (content (after
     (session_onStoreSessionDataUpdated full_store_env init notified))) = Some []"
  by (simp add: session_defs session_demo_defs Let_def)

subsection \<open>authenticationSucceeded\<close>








lemma succeeded_Nil [simp]: "succeeded [] = 0"
  by (simp add: succeeded_def)

lemma succeeded_Cons [simp]:
  "succeeded (x # xs) = (if x = Trigger AuthenticationSucceeded then 1 else 0) + succeeded xs"
  by (simp add: succeeded_def)

lemma succeeded_append [simp]: "succeeded (xs @ ys) = succeeded xs + succeeded ys"
  by (simp add: succeeded_def)







end
